theory Spec2Isabelle
  imports Main
begin

section \<open>Errors and log lines\<close>

text \<open>
  A Go \<open>error\<close> is either a value that comes from a library outside the repository (the HTTP
  client, the JSON decoder, the GitHub client) or one built by \<open>fmt.Errorf(format, args...)\<close>.
  A log line is the pair of format string and arguments handed to \<open>log.Printf\<close>; the
  argument \<open>Nil\<close> is a nil \<open>error\<close> printed with \<open>%v\<close>.
\<close>

datatype error = External string | Errorf string "arg list"
  and arg = S string | D int | V error | Nil

type_synonym logline = "string \<times> arg list"

section \<open>Package github: the repository record and the source collector\<close>

record Repository =
  Name :: string
  URL :: string
  Private :: bool
  Fork :: bool
  Owner :: string
  FullName :: string
  HasIssues :: bool
  Organization :: string
  Starred :: bool

record FetchOptions =
  opt_Username :: string
  opt_PrivateRepositories :: bool
  opt_SkipForks :: bool
  opt_MirrorStarred :: bool
  opt_MirrorOrganizations :: bool
  opt_SingleRepo :: string
  opt_IncludeOrgs :: "string list"
  opt_ExcludeOrgs :: "string list"
  opt_PreserveOrgStructure :: bool
  opt_UseSpecificUser :: bool

text \<open>
  The \<open>go-github\<close> repository value, read only through its getters in \<open>toRepository\<close>
  (a nil pointer reads as the zero value of every field).
\<close>

record GhRepository =
  GetName :: string
  GetCloneURL :: string
  GetPrivate :: bool
  GetFork :: bool
  GetOwnerLogin :: string
  GetFullName :: string
  GetHasIssues :: bool

record GhLabel =
  label_GetName :: string

record GhIssue =
  issue_GetTitle :: string
  issue_GetUserLogin :: string
  issue_GetCreatedAt :: string
  issue_GetBody :: string
  issue_GetState :: string
  issue_Labels :: "GhLabel list"

text \<open>
  One call of a paginated endpoint returns an error, or the items of the page together with
  \<open>resp.NextPage\<close>. The GitHub client is a record of its endpoints; the page asked for is
  the last argument (\<open>opt.Page\<close>, the zero value on the first call). \<open>Affiliation\<close> and
  \<open>Visibility\<close> are the two other option fields the collector sets.
\<close>

type_synonym 'a paged = "error + 'a list \<times> int"

record GitHubClient =
  Repositories_Get :: "string \<Rightarrow> string \<Rightarrow> error + GhRepository"
  Repositories_List :: "string \<Rightarrow> string \<Rightarrow> string \<Rightarrow> int \<Rightarrow> GhRepository paged"
  Repositories_ListByOrg :: "string \<Rightarrow> int \<Rightarrow> GhRepository paged"
  Search_Repositories :: "string \<Rightarrow> int \<Rightarrow> GhRepository paged"
  Activity_ListStarred :: "string \<Rightarrow> int \<Rightarrow> GhRepository paged"
  Organizations_List :: "string \<Rightarrow> int \<Rightarrow> string paged"
  Issues_ListByRepo :: "string \<Rightarrow> string \<Rightarrow> int \<Rightarrow> GhIssue paged"

text \<open>
  Every pagination loop of the source has the shape
  \<^verbatim>\<open>for { items, resp, err := call(opt); if err != nil { ... }; all = append(all, items...);
        if resp.NextPage == 0 { break }; opt.Page = resp.NextPage }\<close>
  and may run forever when the server never answers \<open>NextPage = 0\<close>; the fuel bounds the number
  of calls, and \<open>None\<close> is the loop that has not ended. The result carries the items collected so
  far and the error that ended the loop, if any: the callers that \<open>return nil, err\<close> drop the
  items, the organization loop, which only \<open>break\<close>s, keeps them.
\<close>

fun paginate :: "nat \<Rightarrow> (int \<Rightarrow> 'a paged) \<Rightarrow> int \<Rightarrow> 'a list \<Rightarrow> ('a list \<times> error option) option" where
  "paginate 0 call page all = None"
| "paginate (Suc fuel) call page all =
     (case call page of
        Inl err \<Rightarrow> Some (all, Some err)
      | Inr (items, nextPage) \<Rightarrow>
          if nextPage = 0 then Some (all @ items, None)
          else paginate fuel call nextPage (all @ items))"

definition toRepository :: "GhRepository \<Rightarrow> bool \<Rightarrow> Repository" where
  "toRepository repo preserveOrg =
     \<lparr> Name = GetName repo, URL = GetCloneURL repo, Private = GetPrivate repo,
       Fork = GetFork repo, Owner = GetOwnerLogin repo, FullName = GetFullName repo,
       HasIssues = GetHasIssues repo, Organization = [], Starred = False \<rparr>"

fun toRepositoryList :: "GhRepository list \<Rightarrow> bool \<Rightarrow> Repository list" where
  "toRepositoryList [] preserveOrg = []"
| "toRepositoryList (repo # repos) preserveOrg =
     toRepository repo preserveOrg # toRepositoryList repos preserveOrg"

fun withoutForks :: "Repository list \<Rightarrow> Repository list" where
  "withoutForks [] = []"
| "withoutForks (repo # repositories) =
     (if \<not> Fork repo then repo # withoutForks repositories else withoutForks repositories)"

text \<open>
  \<open>filterDuplicates\<close>: \<open>seen\<close> is the Go \<open>map[string]bool\<close>, whose lookup of a missing key is
  \<open>false\<close>; \<open>result\<close> is the slice built by \<open>append\<close>.
\<close>

fun filterDuplicates_loop :: "(string \<Rightarrow> bool) \<Rightarrow> Repository list \<Rightarrow> Repository list \<Rightarrow> Repository list" where
  "filterDuplicates_loop seen result [] = result"
| "filterDuplicates_loop seen result (repo # repositories) =
     (if \<not> seen (URL repo)
      then filterDuplicates_loop (seen(URL repo := True)) (result @ [repo]) repositories
      else filterDuplicates_loop seen result repositories)"

definition filterDuplicates :: "Repository list \<Rightarrow> Repository list" where
  "filterDuplicates repositories = filterDuplicates_loop (\<lambda>_. False) [] repositories"

subsection \<open>String functions of the Go library used by the collector and the configuration\<close>

text \<open>
  \<open>strings.TrimPrefix\<close>, \<open>strings.TrimSuffix\<close> and \<open>strings.Split\<close> with a one-byte
  separator, on byte strings.
\<close>

definition TrimPrefix :: "string \<Rightarrow> string \<Rightarrow> string" where
  "TrimPrefix s prefix =
     (if take (length prefix) s = prefix then drop (length prefix) s else s)"

definition TrimSuffix :: "string \<Rightarrow> string \<Rightarrow> string" where
  "TrimSuffix s suffix =
     (if length suffix \<le> length s \<and> drop (length s - length suffix) s = suffix
      then take (length s - length suffix) s else s)"

fun Split_loop :: "char \<Rightarrow> string \<Rightarrow> string \<Rightarrow> string list" where
  "Split_loop sep cur [] = [cur]"
| "Split_loop sep cur (c # cs) =
     (if c = sep then cur # Split_loop sep [] cs else Split_loop sep (cur @ [c]) cs)"

definition Split :: "string \<Rightarrow> char \<Rightarrow> string list" where
  "Split s sep = Split_loop sep [] s"

subsection \<open>The collection modes\<close>

definition fetchSingleRepository :: "GitHubClient \<Rightarrow> string \<Rightarrow> error + Repository" where
  "fetchSingleRepository client repoURL =
     (let repoPath = TrimSuffix (TrimPrefix repoURL ''https://github.com/'') ''.git'';
          parts = Split repoPath CHR ''/''
      in case parts of
           [owner, repoName] \<Rightarrow>
             (case Repositories_Get client owner repoName of
                Inl err \<Rightarrow> Inl (Errorf ''error fetching single repository %s: %w'' [S repoURL, V err])
              | Inr repo \<Rightarrow> Inr (toRepository repo False))
         | _ \<Rightarrow> Inl (Errorf ''invalid repository URL format: %s'' [S repoURL]))"

definition fetchPublicRepositories :: "nat \<Rightarrow> GitHubClient \<Rightarrow> string \<Rightarrow> (error + Repository list) option" where
  "fetchPublicRepositories fuel client username =
     (case paginate fuel (Repositories_List client username [] []) 0 [] of
        None \<Rightarrow> None
      | Some (allRepos, Some err) \<Rightarrow> Some (Inl err)
      | Some (allRepos, None) \<Rightarrow> Some (Inr (toRepositoryList allRepos False)))"

definition fetchPrivateRepositories :: "nat \<Rightarrow> GitHubClient \<Rightarrow> (error + Repository list) option" where
  "fetchPrivateRepositories fuel client =
     (case paginate fuel (Repositories_List client [] ''owner'' ''private'') 0 [] of
        None \<Rightarrow> None
      | Some (allRepos, Some err) \<Rightarrow> Some (Inl err)
      | Some (allRepos, None) \<Rightarrow> Some (Inr (toRepositoryList allRepos False)))"

text \<open>
  \<open>fetchStarredRepositories\<close>: both branches of \<open>if username != ""\<close> run the same loop, with
  \<open>username\<close> and with \<open>""\<close>; every record is then marked \<open>Starred\<close>.
\<close>

definition fetchStarredRepositories :: "nat \<Rightarrow> GitHubClient \<Rightarrow> string \<Rightarrow> (error + Repository list) option" where
  "fetchStarredRepositories fuel client username =
     (case (if username \<noteq> [] then paginate fuel (Activity_ListStarred client username) 0 []
            else paginate fuel (Activity_ListStarred client []) 0 []) of
        None \<Rightarrow> None
      | Some (allRepos, Some err) \<Rightarrow> Some (Inl err)
      | Some (allRepos, None) \<Rightarrow>
          Some (Inr (map (\<lambda>repo. repo\<lparr>Starred := True\<rparr>) (toRepositoryList allRepos False))))"

text \<open>The loops \<open>for _, n := range names { if orgName == n { found = true; break } }\<close>.\<close>

fun nameListed :: "string \<Rightarrow> string list \<Rightarrow> bool" where
  "nameListed orgName [] = False"
| "nameListed orgName (n # names) = (if orgName = n then True else nameListed orgName names)"

fun orgsToProcess :: "string list \<Rightarrow> string list \<Rightarrow> string list \<Rightarrow> string list" where
  "orgsToProcess [] includeOrgs excludeOrgs = []"
| "orgsToProcess (orgName # allOrgs) includeOrgs excludeOrgs =
     (if length includeOrgs > 0 \<and> \<not> nameListed orgName includeOrgs
      then orgsToProcess allOrgs includeOrgs excludeOrgs
      else if nameListed orgName excludeOrgs
      then orgsToProcess allOrgs includeOrgs excludeOrgs
      else orgName # orgsToProcess allOrgs includeOrgs excludeOrgs)"

text \<open>
  The body of the loop over \<open>orgsToProcess\<close> for one organization: the listing of its
  repositories (search query when private access is on, public listing otherwise), where an
  error is logged and only leaves the pagination loop, and the conversion of what was listed.
\<close>

definition fetchOrganizationRepositories_org ::
  "nat \<Rightarrow> GitHubClient \<Rightarrow> bool \<Rightarrow> bool \<Rightarrow> string \<Rightarrow> (Repository list \<times> logline list) option" where
  "fetchOrganizationRepositories_org fuel client preserveOrgStructure privateRepoAccess orgName =
     (let log0 = [(''Fetching repositories for organization: %s'', [S orgName])] in
      case (if privateRepoAccess
            then paginate fuel (Search_Repositories client (''org:'' @ orgName)) 0 []
            else paginate fuel (Repositories_ListByOrg client orgName) 0 []) of
        None \<Rightarrow> None
      | Some (orgRepos, err) \<Rightarrow>
          let log1 = (if privateRepoAccess
                      then [(''Using search API to fetch both public and private repositories for org: %s'', [S orgName])]
                      else []);
              log2 = (case err of
                        Some e \<Rightarrow> [(''Error fetching repositories for org %s: %v'', [S orgName, V e])]
                      | None \<Rightarrow> []);
              log3 = (if privateRepoAccess
                      then [(''Found %d repositories (public and private) for org: %s'',
                             [D (int (length orgRepos)), S orgName])]
                      else [(''Found %d public repositories for org: %s'',
                             [D (int (length orgRepos)), S orgName])]);
              repos = toRepositoryList orgRepos preserveOrgStructure;
              repos' = (if preserveOrgStructure
                        then map (\<lambda>repo. repo\<lparr>Organization := orgName\<rparr>) repos else repos)
          in Some (repos', log0 @ log1 @ log2 @ log3))"

fun fetchOrganizationRepositories_loop ::
  "nat \<Rightarrow> GitHubClient \<Rightarrow> bool \<Rightarrow> bool \<Rightarrow> string list \<Rightarrow> Repository list \<Rightarrow> logline list
   \<Rightarrow> (Repository list \<times> logline list) option" where
  "fetchOrganizationRepositories_loop fuel client preserve private [] allOrgRepos logs =
     Some (allOrgRepos, logs)"
| "fetchOrganizationRepositories_loop fuel client preserve private (orgName # orgs) allOrgRepos logs =
     (case fetchOrganizationRepositories_org fuel client preserve private orgName of
        None \<Rightarrow> None
      | Some (repos, lg) \<Rightarrow>
          fetchOrganizationRepositories_loop fuel client preserve private orgs
            (allOrgRepos @ repos) (logs @ lg))"

definition fetchOrganizationRepositories ::
  "nat \<Rightarrow> GitHubClient \<Rightarrow> string \<Rightarrow> string list \<Rightarrow> string list \<Rightarrow> bool \<Rightarrow> bool
   \<Rightarrow> ((error + Repository list) \<times> logline list) option" where
  "fetchOrganizationRepositories fuel client username includeOrgs excludeOrgs
       preserveOrgStructure privateRepoAccess =
     (case (if username \<noteq> [] then paginate fuel (Organizations_List client username) 0 []
            else paginate fuel (Organizations_List client []) 0 []) of
        None \<Rightarrow> None
      | Some (allOrgs, Some err) \<Rightarrow> Some (Inl err, [])
      | Some (allOrgs, None) \<Rightarrow>
          let orgs = orgsToProcess allOrgs includeOrgs excludeOrgs;
              log0 = [(''Processing repositories from %d organizations'', [D (int (length orgs))])]
          in case fetchOrganizationRepositories_loop fuel client preserveOrgStructure
                    privateRepoAccess orgs [] log0 of
               None \<Rightarrow> None
             | Some (allOrgRepos, logs) \<Rightarrow> Some (Inr allOrgRepos, logs))"

text \<open>
  \<open>GetRepositories\<close>. The result is the returned pair (error or repository list) and the log
  lines written on the way; \<open>None\<close> is a pagination loop that has not ended within the fuel.
\<close>

definition GetRepositories_standard ::
  "nat \<Rightarrow> GitHubClient \<Rightarrow> FetchOptions \<Rightarrow> ((error + Repository list) \<times> logline list) option" where
  "GetRepositories_standard fuel client opts =
     (case fetchPublicRepositories fuel client (opt_Username opts) of
        None \<Rightarrow> None
      | Some (Inl err) \<Rightarrow> Some (Inl (Errorf ''failed to fetch public repositories: %w'' [V err]), [])
      | Some (Inr publicRepos) \<Rightarrow>
     (case (if opt_PrivateRepositories opts then fetchPrivateRepositories fuel client
            else Some (Inr [])) of
        None \<Rightarrow> None
      | Some (Inl err) \<Rightarrow> Some (Inl (Errorf ''failed to fetch private repositories: %w'' [V err]), [])
      | Some (Inr privateRepos) \<Rightarrow>
     (case (if opt_MirrorStarred opts
            then fetchStarredRepositories fuel client
                   (if opt_UseSpecificUser opts then opt_Username opts else [])
            else Some (Inr [])) of
        None \<Rightarrow> None
      | Some (Inl err) \<Rightarrow> Some (Inl (Errorf ''failed to fetch starred repositories: %w'' [V err]), [])
      | Some (Inr starredRepos) \<Rightarrow>
     (case (if opt_MirrorOrganizations opts
            then fetchOrganizationRepositories fuel client
                   (if opt_UseSpecificUser opts then opt_Username opts else [])
                   (opt_IncludeOrgs opts) (opt_ExcludeOrgs opts)
                   (opt_PreserveOrgStructure opts) (opt_PrivateRepositories opts)
            else Some (Inr [], [])) of
        None \<Rightarrow> None
      | Some (Inl err, logs) \<Rightarrow>
          Some (Inl (Errorf ''failed to fetch organization repositories: %w'' [V err]), logs)
      | Some (Inr orgRepos, logs) \<Rightarrow>
          Some (Inr (filterDuplicates (publicRepos @ privateRepos @ starredRepos @ orgRepos)),
                logs)))))"

definition GetRepositories ::
  "nat \<Rightarrow> GitHubClient \<Rightarrow> FetchOptions \<Rightarrow> ((error + Repository list) \<times> logline list) option" where
  "GetRepositories fuel client opts =
     (case (if opt_SingleRepo opts \<noteq> []
            then (case fetchSingleRepository client (opt_SingleRepo opts) of
                    Inl err \<Rightarrow> Some (Inl err, [])
                  | Inr repo \<Rightarrow> Some (Inr [repo], []))
            else GetRepositories_standard fuel client opts) of
        None \<Rightarrow> None
      | Some (Inl err, logs) \<Rightarrow> Some (Inl err, logs)
      | Some (Inr repositories, logs) \<Rightarrow>
          Some (Inr (if opt_SkipForks opts then withoutForks repositories else repositories), logs))"

section \<open>Package config\<close>

record GitHubConfig =
  GitHub_Username :: string
  GitHub_Token :: string
  GitHub_SkipForks :: bool
  GitHub_PrivateRepositories :: bool
  GitHub_MirrorIssues :: bool
  GitHub_MirrorStarred :: bool
  GitHub_MirrorOrganizations :: bool
  GitHub_UseSpecificUser :: bool
  GitHub_SingleRepo :: string
  GitHub_IncludeOrgs :: "string list"
  GitHub_ExcludeOrgs :: "string list"
  GitHub_PreserveOrgStructure :: bool
  GitHub_SkipStarredIssues :: bool

record GiteaConfig =
  Gitea_URL :: string
  Gitea_Token :: string
  Gitea_Organization :: string
  Gitea_Visibility :: string
  Gitea_StarredReposOrg :: string

record Config =
  GitHub :: GitHubConfig
  Gitea :: GiteaConfig
  DryRun :: bool
  Delay :: int
  Include :: "string list"
  Exclude :: "string list"
  SingleRun :: bool

text \<open>
  The process environment and the two library functions \<open>Load\<close> relies on beyond those above:
  \<open>os.Getenv\<close> (the empty string for an unset variable), \<open>strconv.Atoi\<close> and
  \<open>strings.TrimSpace\<close>.
\<close>

record Environment =
  Getenv :: "string \<Rightarrow> string"
  Atoi :: "string \<Rightarrow> error + int"
  TrimSpace :: "string \<Rightarrow> string"

definition readEnv :: "Environment \<Rightarrow> string \<Rightarrow> string" where
  "readEnv os variable = Getenv os variable"

definition mustReadEnv :: "Environment \<Rightarrow> string \<Rightarrow> error + string" where
  "mustReadEnv os variable =
     (let val = Getenv os variable
      in if val = [] then Inl (Errorf ''invalid configuration, please provide %s'' [S variable])
         else Inr val)"

definition readBoolean :: "Environment \<Rightarrow> string \<Rightarrow> bool" where
  "readBoolean os variable =
     (let val = Getenv os variable in val = ''true'' \<or> val = ''TRUE'' \<or> val = ''1'')"

definition readInt :: "Environment \<Rightarrow> string \<Rightarrow> int \<Rightarrow> int" where
  "readInt os variable defaultValue =
     (let val = Getenv os variable
      in if val = [] then defaultValue
         else case Atoi os val of Inl err \<Rightarrow> defaultValue | Inr intVal \<Rightarrow> intVal)"

fun splitAndTrim_loop :: "Environment \<Rightarrow> string list \<Rightarrow> string list \<Rightarrow> string list" where
  "splitAndTrim_loop os [] result = result"
| "splitAndTrim_loop os (part # parts) result =
     (let trimmed = TrimSpace os part
      in if trimmed \<noteq> [] then splitAndTrim_loop os parts (result @ [trimmed])
         else splitAndTrim_loop os parts result)"

definition splitAndTrim :: "Environment \<Rightarrow> string \<Rightarrow> string list" where
  "splitAndTrim os s = (if s = [] then [] else splitAndTrim_loop os (Split s CHR '','') [])"

definition Load :: "Environment \<Rightarrow> error + Config" where
  "Load os =
     (case mustReadEnv os ''GITHUB_USERNAME'' of Inl err \<Rightarrow> Inl err | Inr githubUsername \<Rightarrow>
      case mustReadEnv os ''GITEA_URL'' of Inl err \<Rightarrow> Inl err | Inr giteaURL \<Rightarrow>
      case mustReadEnv os ''GITEA_TOKEN'' of Inl err \<Rightarrow> Inl err | Inr giteaToken \<Rightarrow>
      let githubToken = readEnv os ''GITHUB_TOKEN'';
          privateRepositories = readBoolean os ''MIRROR_PRIVATE_REPOSITORIES'';
          mirrorIssues = readBoolean os ''MIRROR_ISSUES'';
          mirrorStarred = readBoolean os ''MIRROR_STARRED'';
          mirrorOrganizations = readBoolean os ''MIRROR_ORGANIZATIONS'';
          singleRepo = readEnv os ''SINGLE_REPO''
      in if privateRepositories \<and> githubToken = []
         then Inl (Errorf ''invalid configuration, mirroring private repositories requires setting GITHUB_TOKEN'' [])
         else if (mirrorIssues \<or> mirrorStarred \<or> mirrorOrganizations \<or> singleRepo \<noteq> [])
                 \<and> githubToken = []
         then Inl (Errorf ''invalid configuration, mirroring issues, starred repositories, organizations, or a single repo requires setting GITHUB_TOKEN'' [])
         else
           let includeStr = (if readEnv os ''INCLUDE'' = [] then ''*'' else readEnv os ''INCLUDE'');
               excludeStr = (if readEnv os ''EXCLUDE'' = [] then [] else readEnv os ''EXCLUDE'');
               starredOrg = (if readEnv os ''GITEA_STARRED_ORGANIZATION'' = [] then ''github''
                             else readEnv os ''GITEA_STARRED_ORGANIZATION'');
               visibility = (if readEnv os ''GITEA_ORG_VISIBILITY'' = [] then ''public''
                             else readEnv os ''GITEA_ORG_VISIBILITY'')
           in Inr \<lparr> GitHub = \<lparr> GitHub_Username = githubUsername,
                               GitHub_Token = githubToken,
                               GitHub_SkipForks = readBoolean os ''SKIP_FORKS'',
                               GitHub_PrivateRepositories = privateRepositories,
                               GitHub_MirrorIssues = mirrorIssues,
                               GitHub_MirrorStarred = mirrorStarred,
                               GitHub_MirrorOrganizations = mirrorOrganizations,
                               GitHub_UseSpecificUser = readBoolean os ''USE_SPECIFIC_USER'',
                               GitHub_SingleRepo = singleRepo,
                               GitHub_IncludeOrgs = splitAndTrim os (readEnv os ''INCLUDE_ORGS''),
                               GitHub_ExcludeOrgs = splitAndTrim os (readEnv os ''EXCLUDE_ORGS''),
                               GitHub_PreserveOrgStructure = readBoolean os ''PRESERVE_ORG_STRUCTURE'',
                               GitHub_SkipStarredIssues = readBoolean os ''SKIP_STARRED_ISSUES'' \<rparr>,
                    Gitea = \<lparr> Gitea_URL = giteaURL,
                              Gitea_Token = giteaToken,
                              Gitea_Organization = readEnv os ''GITEA_ORGANIZATION'',
                              Gitea_Visibility = visibility,
                              Gitea_StarredReposOrg = starredOrg \<rparr>,
                    DryRun = readBoolean os ''DRY_RUN'',
                    Delay = readInt os ''DELAY'' 3600,
                    Include = splitAndTrim os includeStr,
                    Exclude = splitAndTrim os excludeStr,
                    SingleRun = readBoolean os ''SINGLE_RUN'' \<rparr>)"

section \<open>Package gitea: the destination client\<close>

record Target =
  Target_ID :: int
  Target_Name :: string
  Target_Type :: string

record User =
  User_ID :: int
  User_Username :: string

record Organization =
  Organization_ID :: int
  Organization_Username :: string

record MigrateRepoRequest =
  AuthToken :: string
  CloneAddr :: string
  Mirror :: bool
  RepoName :: string
  UID :: int
  Private_field :: bool

record Issue =
  Issue_Title :: string
  Issue_Body :: string
  Issue_State :: string
  Issue_Closed :: bool

record Label =
  Label_Name :: string
  Label_Color :: string

record IssueResponse =
  Number :: int

record Client =
  baseURL :: string
  token :: string

text \<open>
  The value handed to \<open>doRequest\<close> as \<open>body\<close>: \<open>nil\<close>, one of the request structs, or one of
  the two map literals (\<open>{"username", "visibility"}\<close> of \<open>CreateOrganization\<close> and
  \<open>{"labels": [...]}\<close> of \<open>addLabelToIssue\<close>).
\<close>

datatype body =
    NoBody
  | MigrateBody MigrateRepoRequest
  | IssueBody Issue
  | LabelBody Label
  | CreateOrgBody string string
  | LabelListBody "string list"

record Request =
  req_method :: string
  req_url :: string
  req_headers :: "(string \<times> string) list"
  req_body :: body

text \<open>
  What \<open>doRequest\<close> can get for a request, by the place where it returns:
  \<^item> \<open>Refused err\<close>: \<open>json.Marshal\<close>, \<open>http.NewRequest\<close> or \<open>httpClient.Do\<close> failed, no response
    was received (\<open>return nil, 0, err\<close>);
  \<^item> \<open>Truncated status err\<close>: a response with this status arrived and \<open>io.ReadAll\<close> of its
    body failed (\<open>return nil, resp.StatusCode, err\<close>);
  \<^item> \<open>Replied body status\<close>: the response was read whole.
  The destination (and everything else outside the process: the network, the random number
  generator) is a state \<open>'w\<close> with the transition \<open>roundTrip\<close>; the JSON decoders of the three
  response structs and \<open>rand.Intn\<close> are library functions taken as parameters.
\<close>

datatype outcome = Refused error | Truncated int error | Replied string int

record 'w Outside =
  roundTrip :: "'w \<Rightarrow> Request \<Rightarrow> outcome \<times> 'w"
  Unmarshal_User :: "string \<Rightarrow> error + User"
  Unmarshal_Organization :: "string \<Rightarrow> error + Organization"
  Unmarshal_IssueResponse :: "string \<Rightarrow> error + IssueResponse"
  Intn :: "'w \<Rightarrow> int \<Rightarrow> int \<times> 'w"

text \<open>
  The state threaded through a run: the outside world, every request \<open>doRequest\<close> was called
  for (in order), and the log lines written (in order).
\<close>

record 'w Run =
  world :: 'w
  sent :: "Request list"
  logs :: "logline list"

definition Printf :: "string \<Rightarrow> arg list \<Rightarrow> 'w Run \<Rightarrow> 'w Run" where
  "Printf format args s = s\<lparr>logs := logs s @ [(format, args)]\<rparr>"

text \<open>The verbs \<open>%d\<close> and \<open>%06x\<close> of \<open>fmt.Sprintf\<close> on an \<open>int\<close>.\<close>

definition digit :: "nat \<Rightarrow> char" where
  "digit n = ''0123456789abcdef'' ! n"

fun natToBase :: "nat \<Rightarrow> nat \<Rightarrow> string" where
  "natToBase b n =
     (if b < 2 \<or> n < b then [digit n] else natToBase b (n div b) @ [digit (n mod b)])"

definition fmt_d :: "int \<Rightarrow> string" where
  "fmt_d i = (if i < 0 then ''-'' @ natToBase 10 (nat (- i)) else natToBase 10 (nat i))"

definition fmt_06x :: "int \<Rightarrow> string" where
  "fmt_06x i =
     (let ds = natToBase 16 (nat \<bar>i\<bar>);
          sign = (if i < 0 then ''-'' else [])
      in sign @ replicate (6 - length sign - length ds) CHR ''0'' @ ds)"

definition StatusOK :: int where "StatusOK = 200"
definition StatusCreated :: int where "StatusCreated = 201"
definition StatusNoContent :: int where "StatusNoContent = 204"
definition StatusUnprocessableEntity :: int where "StatusUnprocessableEntity = 422"

definition doRequest ::
  "'w Outside \<Rightarrow> Client \<Rightarrow> string \<Rightarrow> string \<Rightarrow> body \<Rightarrow> 'w Run
   \<Rightarrow> (string \<times> int \<times> error option) \<times> 'w Run" where
  "doRequest out c method path body s =
     (let req = \<lparr> req_method = method, req_url = baseURL c @ path,
                  req_headers = [(''Authorization'', ''token '' @ token c),
                                 (''Content-Type'', ''application/json'')],
                  req_body = body \<rparr>;
          (res, w') = roundTrip out (world s) req;
          s' = s\<lparr>world := w', sent := sent s @ [req]\<rparr>
      in case res of
           Refused err \<Rightarrow> (([], 0, Some err), s')
         | Truncated status err \<Rightarrow> (([], status, Some err), s')
         | Replied respBody status \<Rightarrow> ((respBody, status, None), s'))"

definition GetUser :: "'w Outside \<Rightarrow> Client \<Rightarrow> 'w Run \<Rightarrow> (error + Target) \<times> 'w Run" where
  "GetUser out c s =
     (case doRequest out c ''GET'' ''/api/v1/user'' NoBody s of
        ((respBody, statusCode, Some err), s') \<Rightarrow> (Inl err, s')
      | ((respBody, statusCode, None), s') \<Rightarrow>
          if statusCode \<noteq> StatusOK
          then (Inl (Errorf ''failed to get user: status %d'' [D statusCode]), s')
          else case Unmarshal_User out respBody of
                 Inl err \<Rightarrow> (Inl err, s')
               | Inr user \<Rightarrow>
                   (Inr \<lparr> Target_ID = User_ID user, Target_Name = User_Username user,
                          Target_Type = ''user'' \<rparr>, s'))"

definition GetOrganization ::
  "'w Outside \<Rightarrow> Client \<Rightarrow> string \<Rightarrow> 'w Run \<Rightarrow> (error + Target) \<times> 'w Run" where
  "GetOrganization out c orgName s =
     (case doRequest out c ''GET'' (''/api/v1/orgs/'' @ orgName) NoBody s of
        ((respBody, statusCode, Some err), s') \<Rightarrow> (Inl err, s')
      | ((respBody, statusCode, None), s') \<Rightarrow>
          if statusCode \<noteq> StatusOK
          then (Inl (Errorf ''failed to get organization %s: status %d'' [S orgName, D statusCode]), s')
          else case Unmarshal_Organization out respBody of
                 Inl err \<Rightarrow> (Inl err, s')
               | Inr org \<Rightarrow>
                   (Inr \<lparr> Target_ID = Organization_ID org, Target_Name = orgName,
                          Target_Type = ''organization'' \<rparr>, s'))"

definition CreateOrganization ::
  "'w Outside \<Rightarrow> Client \<Rightarrow> string \<Rightarrow> string \<Rightarrow> bool \<Rightarrow> 'w Run \<Rightarrow> error option \<times> 'w Run" where
  "CreateOrganization out c orgName visibility dryRun s =
     (if dryRun
      then (None, Printf ''DRY RUN: Would create Gitea organization: %s (%s)''
                    [S orgName, S visibility] s)
      else case doRequest out c ''GET'' (''/api/v1/orgs/'' @ orgName) NoBody s of
        ((b0, statusCode0, e0), s0) \<Rightarrow>
          if statusCode0 = StatusOK
          then (None, Printf ''Organization %s already exists'' [S orgName] s0)
          else case doRequest out c ''POST'' ''/api/v1/orgs'' (CreateOrgBody orgName visibility) s0 of
                 ((b1, statusCode, Some err), s1) \<Rightarrow> (Some err, s1)
               | ((b1, statusCode, None), s1) \<Rightarrow>
                   if statusCode = StatusCreated \<or> statusCode = StatusUnprocessableEntity
                   then (None, Printf ''Created organization: %s'' [S orgName] s1)
                   else (Some (Errorf ''failed to create organization %s: status %d''
                                 [S orgName, D statusCode]), s1))"

definition IsRepositoryMirrored ::
  "'w Outside \<Rightarrow> Client \<Rightarrow> string \<Rightarrow> Target \<Rightarrow> 'w Run \<Rightarrow> (bool \<times> error option) \<times> 'w Run" where
  "IsRepositoryMirrored out c repoName target s =
     (let path = ''/api/v1/repos/'' @ Target_Name target @ ''/'' @ repoName
      in case doRequest out c ''GET'' path NoBody s of
           ((respBody, statusCode, err), s') \<Rightarrow> ((statusCode = StatusOK, None), s'))"

definition MirrorRepository ::
  "'w Outside \<Rightarrow> Client \<Rightarrow> Repository \<Rightarrow> Target \<Rightarrow> string \<Rightarrow> 'w Run \<Rightarrow> error option \<times> 'w Run" where
  "MirrorRepository out c repo target githubToken s =
     (let migrateReq = \<lparr> AuthToken = githubToken, CloneAddr = URL repo, Mirror = True,
                         RepoName = Name repo, UID = Target_ID target,
                         Private_field = Private repo \<rparr>
      in case doRequest out c ''POST'' ''/api/v1/repos/migrate'' (MigrateBody migrateReq) s of
           ((respBody, statusCode, Some err), s') \<Rightarrow> (Some err, s')
         | ((respBody, statusCode, None), s') \<Rightarrow>
             if statusCode \<noteq> StatusCreated
             then (Some (Errorf ''failed to mirror repository %s: status %d''
                           [S (Name repo), D statusCode]), s')
             else (None, Printf ''Successfully mirrored: %s'' [S (Name repo)] s'))"

definition StarRepository ::
  "'w Outside \<Rightarrow> Client \<Rightarrow> string \<Rightarrow> Target \<Rightarrow> bool \<Rightarrow> 'w Run \<Rightarrow> error option \<times> 'w Run" where
  "StarRepository out c repoName target dryRun s =
     (if dryRun
      then (None, Printf ''DRY RUN: Would star repository in Gitea: %s/%s''
                    [S (Target_Name target), S repoName] s)
      else
        let path = ''/api/v1/user/starred/'' @ Target_Name target @ ''/'' @ repoName
        in case doRequest out c ''PUT'' path NoBody s of
             ((respBody, statusCode, Some err), s') \<Rightarrow> (Some err, s')
           | ((respBody, statusCode, None), s') \<Rightarrow>
               if statusCode \<noteq> StatusNoContent
               then (Some (Errorf ''failed to star repository %s/%s: status %d''
                             [S (Target_Name target), S repoName, D statusCode]), s')
               else (None, Printf ''Successfully starred repository in Gitea: %s/%s''
                             [S (Target_Name target), S repoName] s'))"

subsection \<open>Issue replication\<close>

definition generateRandomColor :: "'w Outside \<Rightarrow> 'w Run \<Rightarrow> string \<times> 'w Run" where
  "generateRandomColor out s =
     (let (n, w') = Intn out (world s) 16777215 in (fmt_06x n, s\<lparr>world := w'\<rparr>))"

definition addLabelToIssue ::
  "'w Outside \<Rightarrow> Client \<Rightarrow> Repository \<Rightarrow> Target \<Rightarrow> int \<Rightarrow> string \<Rightarrow> 'w Run \<Rightarrow> 'w Run" where
  "addLabelToIssue out c repo target issueNumber labelName s =
     (let labelPath = ''/api/v1/repos/'' @ Target_Name target @ ''/'' @ Name repo @ ''/labels'';
          (color, s0) = generateRandomColor out s;
          label = \<lparr> Label_Name = labelName, Label_Color = color \<rparr>;
          (r1, s1) = doRequest out c ''POST'' labelPath (LabelBody label) s0;
          issueLabelPath = ''/api/v1/repos/'' @ Target_Name target @ ''/'' @ Name repo
                           @ ''/issues/'' @ fmt_d issueNumber @ ''/labels''
      in case doRequest out c ''POST'' issueLabelPath (LabelListBody [labelName]) s1 of
           ((respBody, statusCode, err), s2) \<Rightarrow>
             if err \<noteq> None \<or> statusCode \<noteq> StatusOK
             then Printf ''Error adding label %s to issue: %v''
                    [S labelName, (case err of Some e \<Rightarrow> V e | None \<Rightarrow> Nil)] s2
             else s2)"

fun addLabelToIssue_loop ::
  "'w Outside \<Rightarrow> Client \<Rightarrow> Repository \<Rightarrow> Target \<Rightarrow> int \<Rightarrow> GhLabel list \<Rightarrow> 'w Run \<Rightarrow> 'w Run" where
  "addLabelToIssue_loop out c repo target issueNumber [] s = s"
| "addLabelToIssue_loop out c repo target issueNumber (label # labels) s =
     addLabelToIssue_loop out c repo target issueNumber labels
       (addLabelToIssue out c repo target issueNumber (label_GetName label) s)"

definition createGiteaIssue ::
  "'w Outside \<Rightarrow> Client \<Rightarrow> GhIssue \<Rightarrow> Repository \<Rightarrow> Target \<Rightarrow> 'w Run \<Rightarrow> error option \<times> 'w Run" where
  "createGiteaIssue out c issue repo target s =
     (let body = ''*Originally created by @'' @ issue_GetUserLogin issue @ '' on ''
                 @ issue_GetCreatedAt issue @ ''*'' @ [CHR 0x0A, CHR 0x0A] @ issue_GetBody issue;
          giteaIssue = \<lparr> Issue_Title = issue_GetTitle issue, Issue_Body = body,
                         Issue_State = issue_GetState issue,
                         Issue_Closed = (issue_GetState issue = ''closed'') \<rparr>;
          path = ''/api/v1/repos/'' @ Target_Name target @ ''/'' @ Name repo @ ''/issues''
      in case doRequest out c ''POST'' path (IssueBody giteaIssue) s of
           ((respBody, statusCode, Some err), s') \<Rightarrow> (Some err, s')
         | ((respBody, statusCode, None), s') \<Rightarrow>
             if statusCode \<noteq> StatusCreated
             then (Some (Errorf ''failed to create issue: status %d'' [D statusCode]), s')
             else case Unmarshal_IssueResponse out respBody of
                    Inl err \<Rightarrow> (Some err, s')
                  | Inr issueResp \<Rightarrow>
                      (None,
                       addLabelToIssue_loop out c repo target (Number issueResp) (issue_Labels issue)
                         (Printf ''Created issue #%d: %s''
                            [D (Number issueResp), S (issue_GetTitle issue)] s')))"

definition fetchGitHubIssues ::
  "nat \<Rightarrow> GitHubClient \<Rightarrow> Repository \<Rightarrow> (error + GhIssue list) option" where
  "fetchGitHubIssues fuel ghClient repo =
     (case paginate fuel (Issues_ListByRepo ghClient (Owner repo) (Name repo)) 0 [] of
        None \<Rightarrow> None
      | Some (allIssues, Some err) \<Rightarrow>
          Some (Inl (Errorf ''error fetching issues for %s/%s: %w''
                       [S (Owner repo), S (Name repo), V err]))
      | Some (allIssues, None) \<Rightarrow> Some (Inr allIssues))"

fun MirrorIssues_loop ::
  "'w Outside \<Rightarrow> Client \<Rightarrow> Repository \<Rightarrow> Target \<Rightarrow> GhIssue list \<Rightarrow> 'w Run \<Rightarrow> 'w Run" where
  "MirrorIssues_loop out c repo target [] s = s"
| "MirrorIssues_loop out c repo target (issue # issues) s =
     (case createGiteaIssue out c issue repo target s of
        (Some err, s') \<Rightarrow>
          MirrorIssues_loop out c repo target issues
            (Printf (''Error creating issue '' @ [CHR 0x27] @ ''%s'' @ [CHR 0x27] @ '': %v'')
               [S (issue_GetTitle issue), V err] s')
      | (None, s') \<Rightarrow> MirrorIssues_loop out c repo target issues s')"

definition MirrorIssues ::
  "nat \<Rightarrow> 'w Outside \<Rightarrow> Client \<Rightarrow> GitHubClient \<Rightarrow> Repository \<Rightarrow> Target \<Rightarrow> string \<Rightarrow> bool
   \<Rightarrow> 'w Run \<Rightarrow> (error option \<times> 'w Run) option" where
  "MirrorIssues fuel out c ghClient repo target githubToken dryRun s =
     (if \<not> HasIssues repo
      then Some (None, Printf (''Repository %s doesn'' @ [CHR 0x27]
                                 @ ''t have issues enabled. Skipping issues mirroring.'')
                         [S (Name repo)] s)
      else if dryRun
      then Some (None, Printf ''DRY RUN: Would mirror issues for repository: %s'' [S (Name repo)] s)
      else case fetchGitHubIssues fuel ghClient repo of
             None \<Rightarrow> None
           | Some (Inl err) \<Rightarrow> Some (Some err, s)
           | Some (Inr issues) \<Rightarrow>
               Some (None,
                 Printf ''Completed mirroring issues for %s'' [S (Name repo)]
                   (MirrorIssues_loop out c repo target issues
                      (Printf ''Found %d issues for %s''
                         [D (int (length issues)), S (Name repo)] s))))"

section \<open>Package main: the filter stage\<close>

text \<open>
  \<open>doublestar.Match(pattern, name)\<close> is a library outside the repository; it is a parameter
  returning the pair \<open>(matched, err)\<close>. The two inner loops of \<open>filterRepositories\<close> are the same
  loop over a pattern list, leaving at the first pattern with \<open>err == nil && matched\<close>.
\<close>

type_synonym matcher = "string \<Rightarrow> string \<Rightarrow> bool \<times> error option"

fun patternMatch :: "matcher \<Rightarrow> string list \<Rightarrow> string \<Rightarrow> bool" where
  "patternMatch Match [] name = False"
| "patternMatch Match (pattern # patterns) name =
     (case Match pattern name of
        (matched, err) \<Rightarrow>
          if err = None \<and> matched then True else patternMatch Match patterns name)"

fun filterRepositories_loop ::
  "matcher \<Rightarrow> Repository list \<Rightarrow> string list \<Rightarrow> string list \<Rightarrow> Repository list \<Rightarrow> Repository list" where
  "filterRepositories_loop Match [] incl excl filtered = filtered"
| "filterRepositories_loop Match (repo # repos) incl excl filtered =
     (if \<not> patternMatch Match incl (Name repo)
      then filterRepositories_loop Match repos incl excl filtered
      else if \<not> patternMatch Match excl (Name repo)
      then filterRepositories_loop Match repos incl excl (filtered @ [repo])
      else filterRepositories_loop Match repos incl excl filtered)"

definition filterRepositories ::
  "matcher \<Rightarrow> Repository list \<Rightarrow> string list \<Rightarrow> string list \<Rightarrow> Repository list" where
  "filterRepositories Match repos incl excl = filterRepositories_loop Match repos incl excl []"

section \<open>Package main: target resolution and the mirror orchestrator\<close>

definition getDefaultTarget ::
  "'w Outside \<Rightarrow> Client \<Rightarrow> Config \<Rightarrow> Target \<Rightarrow> 'w Run \<Rightarrow> Target \<times> 'w Run" where
  "getDefaultTarget out giteaClient cfg giteaUser s =
     (if Gitea_Organization (Gitea cfg) \<noteq> []
      then case GetOrganization out giteaClient (Gitea_Organization (Gitea cfg)) s of
             (Inr org, s') \<Rightarrow> (org, s')
           | (Inl err, s') \<Rightarrow>
               (giteaUser,
                Printf ''Warning: Failed to get Gitea organization %s, using user instead: %v''
                  [S (Gitea_Organization (Gitea cfg)), V err] s')
      else (giteaUser, s))"

text \<open>
  The first part of \<open>mirrorRepository\<close> (``Determine the target''), which ends with
  \<open>giteaTarget\<close> set. \<open>orgTargets\<close> is the Go map from organization name to target.
\<close>

definition mirrorRepository_target ::
  "'w Outside \<Rightarrow> Client \<Rightarrow> Repository \<Rightarrow> Config \<Rightarrow> Target \<Rightarrow> (string \<rightharpoonup> Target) \<Rightarrow> 'w Run
   \<Rightarrow> Target \<times> 'w Run" where
  "mirrorRepository_target out giteaClient repo cfg giteaUser orgTargets s =
     (if Starred repo \<and> Gitea_StarredReposOrg (Gitea cfg) \<noteq> []
      then case GetOrganization out giteaClient (Gitea_StarredReposOrg (Gitea cfg)) s of
             (Inr starredOrg, s') \<Rightarrow>
               (starredOrg,
                Printf (''Using organization '' @ [CHR 0x22] @ ''%s'' @ [CHR 0x22]
                        @ '' for starred repository: %s'')
                  [S (Gitea_StarredReposOrg (Gitea cfg)), S (Name repo)] s')
           | (Inl err, s') \<Rightarrow>
               getDefaultTarget out giteaClient cfg giteaUser
                 (Printf (''Could not find organization '' @ [CHR 0x22] @ ''%s'' @ [CHR 0x22]
                          @ '' for starred repositories, using default target'')
                    [S (Gitea_StarredReposOrg (Gitea cfg))] s')
      else if GitHub_PreserveOrgStructure (GitHub cfg) \<and> Organization repo \<noteq> []
      then case orgTargets (Organization repo) of
             Some target \<Rightarrow> (target, s)
           | None \<Rightarrow>
               getDefaultTarget out giteaClient cfg giteaUser
                 (Printf ''No Gitea organization found for %s, using default target''
                    [S (Organization repo)] s)
      else getDefaultTarget out giteaClient cfg giteaUser s)"

text \<open>
  The last part of \<open>mirrorRepository\<close>, from the log line ``Mirroring repository to ...'' on:
  create the mirror, star it, replicate the issues.
\<close>

definition mirrorRepository_create ::
  "nat \<Rightarrow> 'w Outside \<Rightarrow> Client \<Rightarrow> GitHubClient \<Rightarrow> Repository \<Rightarrow> Config \<Rightarrow> Target \<Rightarrow> 'w Run
   \<Rightarrow> (error option \<times> 'w Run) option" where
  "mirrorRepository_create fuel out giteaClient ghClient repo cfg giteaTarget s =
     (let s0 = Printf ''Mirroring repository to %s %s: %s%s''
                 [S (Target_Type giteaTarget), S (Target_Name giteaTarget), S (Name repo),
                  S (if Starred repo then '' (will be starred)'' else [])] s
      in case MirrorRepository out giteaClient repo giteaTarget (GitHub_Token (GitHub cfg)) s0 of
           (Some err, s1) \<Rightarrow> Some (Some err, s1)
         | (None, s1) \<Rightarrow>
             let s2 = (if Starred repo
                       then case StarRepository out giteaClient (Name repo) giteaTarget (DryRun cfg) s1 of
                              (Some err, s') \<Rightarrow>
                                Printf ''Warning: Failed to star repository %s: %v''
                                  [S (Name repo), V err] s'
                            | (None, s') \<Rightarrow> s'
                       else s1);
                 shouldMirrorIssues = (GitHub_MirrorIssues (GitHub cfg)
                     \<and> \<not> (Starred repo \<and> GitHub_SkipStarredIssues (GitHub cfg)))
             in if shouldMirrorIssues \<and> \<not> DryRun cfg
                then case MirrorIssues fuel out giteaClient ghClient repo giteaTarget
                            (GitHub_Token (GitHub cfg)) (DryRun cfg) s2 of
                       None \<Rightarrow> None
                     | Some (Some err, s3) \<Rightarrow>
                         Some (None, Printf ''Warning: Failed to mirror issues for %s: %v''
                                       [S (Name repo), V err] s3)
                     | Some (None, s3) \<Rightarrow> Some (None, s3)
                else if Starred repo \<and> GitHub_SkipStarredIssues (GitHub cfg)
                then Some (None, Printf ''Skipping issues for starred repository: %s'' [S (Name repo)] s2)
                else Some (None, s2))"

text \<open>
  \<open>mirrorRepository\<close>: the returned error (\<open>None\<close> is \<open>nil\<close>) and the state after the call;
  the outer \<open>None\<close> is the issue pagination that has not ended within the fuel.
\<close>

definition mirrorRepository ::
  "nat \<Rightarrow> 'w Outside \<Rightarrow> Client \<Rightarrow> GitHubClient \<Rightarrow> Repository \<Rightarrow> Config \<Rightarrow> Target
   \<Rightarrow> (string \<rightharpoonup> Target) \<Rightarrow> 'w Run \<Rightarrow> (error option \<times> 'w Run) option" where
  "mirrorRepository fuel out giteaClient ghClient repo cfg giteaUser orgTargets s =
     (case mirrorRepository_target out giteaClient repo cfg giteaUser orgTargets s of
        (giteaTarget, s1) \<Rightarrow>
     (case IsRepositoryMirrored out giteaClient (Name repo) giteaTarget s1 of
        ((isAlreadyMirrored, Some err), s2) \<Rightarrow> Some (Some err, s2)
      | ((isAlreadyMirrored, None), s2) \<Rightarrow>
          if Starred repo
          then (if isAlreadyMirrored
                then Some (StarRepository out giteaClient (Name repo) giteaTarget (DryRun cfg)
                       (Printf ''Repository %s is already mirrored in %s %s; checking if it needs to be starred.''
                          [S (Name repo), S (Target_Type giteaTarget), S (Target_Name giteaTarget)] s2))
                else if DryRun cfg
                then Some (None,
                       Printf ''DRY RUN: Would mirror and star repository to %s %s: %s (starred)''
                         [S (Target_Type giteaTarget), S (Target_Name giteaTarget), S (Name repo)] s2)
                else mirrorRepository_create fuel out giteaClient ghClient repo cfg giteaTarget s2)
          else if isAlreadyMirrored
          then Some (None,
                 Printf ''Repository %s is already mirrored in %s %s; doing nothing.''
                   [S (Name repo), S (Target_Type giteaTarget), S (Target_Name giteaTarget)] s2)
          else if DryRun cfg
          then Some (None,
                 Printf ''DRY RUN: Would mirror repository to %s %s: %s''
                   [S (Target_Type giteaTarget), S (Target_Name giteaTarget), S (Name repo)] s2)
          else mirrorRepository_create fuel out giteaClient ghClient repo cfg giteaTarget s2))"

section \<open>Notions used to state the properties\<close>

text \<open>
  The requests issued between two states of a run, and the requests that change nothing at
  the destination: \<open>GET\<close> without a body. Mirror creation (\<open>POST /api/v1/repos/migrate\<close>),
  starring (\<open>PUT /api/v1/user/starred/...\<close>), issue and label creation (\<open>POST\<close>) and
  organization creation (\<open>POST /api/v1/orgs\<close>) are all outside it.
\<close>

definition issued :: "'w Run \<Rightarrow> 'w Run \<Rightarrow> Request list" where
  "issued s s' = drop (length (sent s)) (sent s')"

definition extends :: "'w Run \<Rightarrow> 'w Run \<Rightarrow> bool" where
  "extends s s' = (take (length (sent s)) (sent s') = sent s)"

definition readOnly :: "Request \<Rightarrow> bool" where
  "readOnly req = (req_method req = ''GET'' \<and> req_body req = NoBody)"

definition onlyReads :: "'w Run \<Rightarrow> 'w Run \<Rightarrow> bool" where
  "onlyReads s s' = (extends s s' \<and> list_all readOnly (issued s s'))"

text \<open>The request \<open>doRequest\<close> builds from its arguments, and the mirror-create request.\<close>

definition request :: "Client \<Rightarrow> string \<Rightarrow> string \<Rightarrow> body \<Rightarrow> Request" where
  "request c method path body =
     \<lparr> req_method = method, req_url = baseURL c @ path,
       req_headers = [(''Authorization'', ''token '' @ token c),
                      (''Content-Type'', ''application/json'')],
       req_body = body \<rparr>"

definition migrateRequest :: "Client \<Rightarrow> Repository \<Rightarrow> Target \<Rightarrow> string \<Rightarrow> Request" where
  "migrateRequest c repo target githubToken =
     request c ''POST'' ''/api/v1/repos/migrate''
       (MigrateBody \<lparr> AuthToken = githubToken, CloneAddr = URL repo, Mirror = True,
                      RepoName = Name repo, UID = Target_ID target,
                      Private_field = Private repo \<rparr>)"

text \<open>
  The conditions under which \<open>Load\<close> refuses a configuration without \<open>GITHUB_TOKEN\<close>, that
  is, under which the source credential is required.
\<close>

definition credentialRequired :: "Config \<Rightarrow> bool" where
  "credentialRequired cfg =
     (GitHub_PrivateRepositories (GitHub cfg) \<or> GitHub_MirrorIssues (GitHub cfg)
      \<or> GitHub_MirrorStarred (GitHub cfg) \<or> GitHub_MirrorOrganizations (GitHub cfg)
      \<or> GitHub_SingleRepo (GitHub cfg) \<noteq> [])"

section \<open>Concrete inputs\<close>

text \<open>
  A matcher for the examples: the pattern \<open>[bad\<close> is malformed (an error on every name),
  \<open>lib-*\<close> matches the names starting with \<open>lib-\<close>, \<open>*\<close> matches every name, and any other
  pattern matches the name equal to it.
\<close>

definition example_Match :: matcher where
  "example_Match pattern name =
     (if pattern = ''[bad'' then (False, Some (External ''syntax error in pattern''))
      else if pattern = ''lib-*'' then (take 4 name = ''lib-'', None)
      else if pattern = ''*'' then (True, None)
      else (pattern = name, None))"

definition example_repo :: "string \<Rightarrow> string \<Rightarrow> Repository" where
  "example_repo name url =
     \<lparr> Name = name, URL = url, Private = False, Fork = False, Owner = ''octocat'',
       FullName = ''octocat/'' @ name, HasIssues = True, Organization = [], Starred = False \<rparr>"

text \<open>
  A destination that answers from a script: each request consumes the next outcome, and a
  request after the end of the script is refused. The decoders accept every body except
  \<open>{\<close>; \<open>rand.Intn\<close> always draws 0.
\<close>

definition scripted :: "outcome list Outside" where
  "scripted =
     \<lparr> roundTrip = (\<lambda>w req. case w of [] \<Rightarrow> (Refused (External ''connection refused''), [])
                                      | r # rs \<Rightarrow> (r, rs)),
       Unmarshal_User = (\<lambda>b. Inr \<lparr> User_ID = 1, User_Username = ''alice'' \<rparr>),
       Unmarshal_Organization =
         (\<lambda>b. if b = ''{'' then Inl (External ''unexpected end of JSON input'')
              else Inr \<lparr> Organization_ID = 7, Organization_Username = ''org'' \<rparr>),
       Unmarshal_IssueResponse = (\<lambda>b. Inr \<lparr> Number = 1 \<rparr>),
       Intn = (\<lambda>w n. (0, w)) \<rparr>"

definition start :: "outcome list \<Rightarrow> outcome list Run" where
  "start script = \<lparr> world = script, sent = [], logs = [] \<rparr>"

definition example_client :: Client where
  "example_client = \<lparr> baseURL = ''https://gitea.example'', token = ''gitea-token'' \<rparr>"

definition example_user :: Target where
  "example_user = \<lparr> Target_ID = 1, Target_Name = ''alice'', Target_Type = ''user'' \<rparr>"

text \<open>
  A configuration with every collection mode off (so that no source credential is required),
  no destination organization, the starred organization \<open>github\<close>, and the given dry-run
  flag and source credential.
\<close>

definition example_cfg :: "bool \<Rightarrow> string \<Rightarrow> Config" where
  "example_cfg dryRun githubToken =
     \<lparr> GitHub = \<lparr> GitHub_Username = ''octocat'', GitHub_Token = githubToken,
                  GitHub_SkipForks = False, GitHub_PrivateRepositories = False,
                  GitHub_MirrorIssues = False, GitHub_MirrorStarred = False,
                  GitHub_MirrorOrganizations = False, GitHub_UseSpecificUser = False,
                  GitHub_SingleRepo = [], GitHub_IncludeOrgs = [], GitHub_ExcludeOrgs = [],
                  GitHub_PreserveOrgStructure = False, GitHub_SkipStarredIssues = False \<rparr>,
       Gitea = \<lparr> Gitea_URL = ''https://gitea.example'', Gitea_Token = ''gitea-token'',
                 Gitea_Organization = [], Gitea_Visibility = ''public'',
                 Gitea_StarredReposOrg = ''github'' \<rparr>,
       DryRun = dryRun, Delay = 3600, Include = [''*''], Exclude = [], SingleRun = False \<rparr>"

definition example_gh_repo :: "string \<Rightarrow> string \<Rightarrow> GhRepository" where
  "example_gh_repo owner name =
     \<lparr> GetName = name, GetCloneURL = ''https://github.com/'' @ owner @ ''/'' @ name @ ''.git'',
       GetPrivate = False, GetFork = False, GetOwnerLogin = owner,
       GetFullName = owner @ ''/'' @ name, GetHasIssues = False \<rparr>"

text \<open>
  A source with three organizations: the listing of \<open>acme\<close> answers a first page holding one
  repository and fails on the second page; the listing of \<open>down\<close> fails at once; \<open>beta\<close> has
  one repository on a single page. The organizations of the user \<open>nobody\<close> cannot be listed.
\<close>

definition example_gh :: GitHubClient where
  "example_gh =
     \<lparr> Repositories_Get = (\<lambda>owner name. Inl (External ''404 Not Found'')),
       Repositories_List = (\<lambda>user affiliation visibility page. Inr ([], 0)),
       Repositories_ListByOrg =
         (\<lambda>org page. if org = ''acme''
                      then (if page = 0 then Inr ([example_gh_repo ''acme'' ''one''], 2)
                            else Inl (External ''502 Bad Gateway''))
                      else if org = ''down'' then Inl (External ''503 Service Unavailable'')
                      else Inr ([example_gh_repo ''beta'' ''two''], 0)),
       Search_Repositories = (\<lambda>query page. Inr ([], 0)),
       Activity_ListStarred = (\<lambda>user page. Inr ([], 0)),
       Organizations_List =
         (\<lambda>user page. if user = ''nobody'' then Inl (External ''404 Not Found'')
                       else Inr ([''acme'', ''down'', ''beta''], 0)),
       Issues_ListByRepo = (\<lambda>owner name page. Inr ([], 0)) \<rparr>"

definition example_opts :: FetchOptions where
  "example_opts =
     \<lparr> opt_Username = ''octocat'', opt_PrivateRepositories = False, opt_SkipForks = False,
       opt_MirrorStarred = False, opt_MirrorOrganizations = True, opt_SingleRepo = [],
       opt_IncludeOrgs = [], opt_ExcludeOrgs = [], opt_PreserveOrgStructure = False,
       opt_UseSpecificUser = False \<rparr>"


text \<open>The example configuration with issue replication switched on.\<close>

definition example_cfg_issues :: Config where
  "example_cfg_issues =
     (example_cfg False ''gh-token'')
       \<lparr> GitHub := (GitHub (example_cfg False ''gh-token''))\<lparr> GitHub_MirrorIssues := True \<rparr> \<rparr>"

text \<open>An environment holding the three mandatory variables only.\<close>

definition example_os :: Environment where
  "example_os =
     \<lparr> Getenv = (\<lambda>v. if v = ''GITHUB_USERNAME'' then ''octocat''
                     else if v = ''GITEA_URL'' then ''https://gitea.example''
                     else if v = ''GITEA_TOKEN'' then ''gitea-token'' else []),
       Atoi = (\<lambda>v. Inl (External ''invalid syntax'')),
       TrimSpace = (\<lambda>v. v) \<rparr>"

section \<open>Verification\<close>

subsection \<open>Auxiliary facts: the filter stage\<close>

lemma patternMatch_iff:
  "patternMatch M ps n \<longleftrightarrow> (\<exists>p\<in>set ps. M p n = (True, None))"
  by (induction ps) (auto split: prod.splits)

lemma filterRepositories_loop_filter:
  "filterRepositories_loop M repos inc exc acc =
     acc @ filter (\<lambda>r. patternMatch M inc (Name r) \<and> \<not> patternMatch M exc (Name r)) repos"
  by (induction repos arbitrary: acc) auto

lemma filterRepositories_filter:
  "filterRepositories M repos inc exc =
     filter (\<lambda>r. patternMatch M inc (Name r) \<and> \<not> patternMatch M exc (Name r)) repos"
  by (simp add: filterRepositories_def filterRepositories_loop_filter)


subsection \<open>Auxiliary facts: deduplication\<close>

lemma filterDuplicates_loop_append:
  "filterDuplicates_loop seen result rs = result @ filterDuplicates_loop seen [] rs"
proof (induction rs arbitrary: seen result)
  case Nil
  then show ?case by simp
next
  case (Cons r rs)
  show ?case
  proof (cases "seen (URL r)")
    case True
    then show ?thesis using Cons.IH[of seen result] by simp
  next
    case False
    have a: "filterDuplicates_loop (seen(URL r := True)) (result @ [r]) rs
               = (result @ [r]) @ filterDuplicates_loop (seen(URL r := True)) [] rs"
      by (rule Cons.IH)
    have b: "filterDuplicates_loop (seen(URL r := True)) [r] rs
               = [r] @ filterDuplicates_loop (seen(URL r := True)) [] rs"
      by (rule Cons.IH)
    from False a b show ?thesis by (simp del: fun_upd_apply)
  qed
qed

lemma filterDuplicates_loop_Cons:
  "filterDuplicates_loop seen [] (r # rs) =
     (if seen (URL r) then filterDuplicates_loop seen [] rs
      else r # filterDuplicates_loop (seen(URL r := True)) [] rs)"
  using filterDuplicates_loop_append[of "seen(URL r := True)" "[r]" rs] by (simp del: fun_upd_apply)

lemma filterDuplicates_loop_unseen:
  "x \<in> set (filterDuplicates_loop seen [] rs) \<Longrightarrow> \<not> seen (URL x) \<and> x \<in> set rs"
proof (induction rs arbitrary: seen)
  case Nil
  then show ?case by simp
next
  case (Cons a rs)
  show ?case
  proof (cases "seen (URL a)")
    case True
    with Cons.prems have "x \<in> set (filterDuplicates_loop seen [] rs)"
      by (simp only: filterDuplicates_loop_Cons if_True)
    from Cons.IH[OF this] show ?thesis by simp
  next
    case False
    with Cons.prems have "x = a \<or> x \<in> set (filterDuplicates_loop (seen(URL a := True)) [] rs)"
      by (simp only: filterDuplicates_loop_Cons if_False set_simps insert_iff)
    then show ?thesis
    proof
      assume "x = a" with False show ?thesis by simp
    next
      assume "x \<in> set (filterDuplicates_loop (seen(URL a := True)) [] rs)"
      from Cons.IH[OF this] show ?thesis by (auto split: if_splits)
    qed
  qed
qed

lemma filterDuplicates_loop_distinct: "distinct (map URL (filterDuplicates_loop seen [] rs))"
proof (induction rs arbitrary: seen)
  case Nil
  then show ?case by simp
next
  case (Cons a rs)
  show ?case
  proof (cases "seen (URL a)")
    case True
    then show ?thesis using Cons.IH[of seen] by (simp only: filterDuplicates_loop_Cons if_True)
  next
    case False
    have "URL x \<noteq> URL a" if "x \<in> set (filterDuplicates_loop (seen(URL a := True)) [] rs)" for x
      using filterDuplicates_loop_unseen[OF that] by auto
    then have "URL a \<notin> URL ` set (filterDuplicates_loop (seen(URL a := True)) [] rs)"
      by force
    with False Cons.IH[of "seen(URL a := True)"] show ?thesis
      by (simp only: filterDuplicates_loop_Cons if_False list.map distinct.simps set_map not_False_eq_True simp_thms)
  qed
qed

lemma filterDuplicates_loop_find:
  "find (\<lambda>r. URL r = u) (filterDuplicates_loop seen [] rs)
     = (if seen u then None else find (\<lambda>r. URL r = u) rs)"
proof (induction rs arbitrary: seen)
  case Nil
  then show ?case by simp
next
  case (Cons a rs)
  show ?case
  proof (cases "seen (URL a)")
    case True
    then show ?thesis using Cons.IH[of seen] by (auto simp only: filterDuplicates_loop_Cons if_True find.simps split: if_splits)
  next
    case False
    have "find (\<lambda>r. URL r = u) (filterDuplicates_loop seen [] (a # rs))
            = find (\<lambda>r. URL r = u) (a # filterDuplicates_loop (seen(URL a := True)) [] rs)"
      using False by (simp only: filterDuplicates_loop_Cons if_False)
    also have "\<dots> = (if seen u then None else find (\<lambda>r. URL r = u) (a # rs))"
      using False by (auto simp add: Cons.IH)
    finally show ?thesis .
  qed
qed

lemma filterDuplicates_distinct: "distinct (map URL (filterDuplicates rs))"
  by (simp add: filterDuplicates_def filterDuplicates_loop_distinct)

lemma filterDuplicates_find:
  "find (\<lambda>r. URL r = u) (filterDuplicates rs) = find (\<lambda>r. URL r = u) rs"
  by (simp add: filterDuplicates_def filterDuplicates_loop_find)

lemma filterDuplicates_subset: "set (filterDuplicates rs) \<subseteq> set rs"
  using filterDuplicates_loop_unseen[of _ "\<lambda>_. False" rs] by (auto simp: filterDuplicates_def)

lemma withoutForks_filter: "withoutForks rs = filter (\<lambda>r. \<not> Fork r) rs"
  by (induction rs) auto


subsection \<open>Auxiliary facts: requests and log lines\<close>

lemma extends_iff: "extends s s' \<longleftrightarrow> (\<exists>new. sent s' = sent s @ new)"
  unfolding extends_def
  by (metis append_eq_conv_conj append_take_drop_id)

lemma Printf_sent [simp]: "sent (Printf f a s) = sent s"
  by (simp add: Printf_def)

lemma Printf_world [simp]: "world (Printf f a s) = world s"
  by (simp add: Printf_def)

lemma Printf_logs [simp]: "logs (Printf f a s) = logs s @ [(f, a)]"
  by (simp add: Printf_def)

lemma onlyReads_refl [simp]: "onlyReads s s"
  by (simp add: onlyReads_def extends_def issued_def)

lemma onlyReads_trans: "onlyReads s s1 \<Longrightarrow> onlyReads s1 s2 \<Longrightarrow> onlyReads s s2"
  by (auto simp: onlyReads_def extends_iff issued_def)

lemma onlyReads_Printf [simp]:
  "onlyReads s (Printf f a s') = onlyReads s s'" "onlyReads (Printf f a s) s' = onlyReads s s'"
  by (simp_all add: onlyReads_def extends_def issued_def)

lemma doRequest_sent:
  "doRequest out c m p b s = (r, s') \<Longrightarrow>
     sent s' = sent s @ [\<lparr> req_method = m, req_url = baseURL c @ p,
                  req_headers = [(''Authorization'', ''token '' @ token c),
                                 (''Content-Type'', ''application/json'')],
                  req_body = b \<rparr>]"
  by (auto simp: doRequest_def Let_def split: prod.splits outcome.splits)

lemma doRequest_GET_onlyReads:
  "doRequest out c ''GET'' p NoBody s = (r, s') \<Longrightarrow> onlyReads s s'"
  by (drule doRequest_sent) (simp add: onlyReads_def extends_def issued_def readOnly_def)

lemma GetOrganization_onlyReads:
  "GetOrganization out c n s = (r, s') \<Longrightarrow> onlyReads s s'"
  unfolding GetOrganization_def
  by (auto split: prod.splits option.splits if_splits sum.splits dest: doRequest_GET_onlyReads)

lemma getDefaultTarget_onlyReads:
  "getDefaultTarget out c cfg u s = (t, s') \<Longrightarrow> onlyReads s s'"
  unfolding getDefaultTarget_def
  by (auto split: prod.splits sum.splits if_splits dest: GetOrganization_onlyReads)

lemma mirrorRepository_target_onlyReads:
  "mirrorRepository_target out c repo cfg u orgTargets s = (t, s') \<Longrightarrow> onlyReads s s'"
  unfolding mirrorRepository_target_def
  by (auto split: prod.splits sum.splits if_splits option.splits
      dest!: GetOrganization_onlyReads getDefaultTarget_onlyReads intro: onlyReads_trans)

lemma IsRepositoryMirrored_onlyReads:
  "IsRepositoryMirrored out c n t s = (r, s') \<Longrightarrow> onlyReads s s' \<and> snd r = None"
  unfolding IsRepositoryMirrored_def
  by (auto simp: Let_def split: prod.splits dest: doRequest_GET_onlyReads)

lemma StarRepository_dryRun:
  "StarRepository out c n t True s =
     (None, Printf ''DRY RUN: Would star repository in Gitea: %s/%s'' [S (Target_Name t), S n] s)"
  by (simp add: StarRepository_def)


lemma extends_refl [simp]: "extends s s"
  by (simp add: extends_def)

lemma extends_trans: "extends s s1 \<Longrightarrow> extends s1 s2 \<Longrightarrow> extends s s2"
  by (auto simp: extends_iff)

lemma extends_Printf [simp]:
  "extends s (Printf f a s') = extends s s'" "extends (Printf f a s) s' = extends s s'"
  by (simp_all add: extends_def)

lemma doRequest_request:
  "doRequest out c m p b s = (r, s') \<Longrightarrow> sent s' = sent s @ [request c m p b]"
  by (simp add: doRequest_sent request_def)

lemma doRequest_extends: "doRequest out c m p b s = (r, s') \<Longrightarrow> extends s s'"
  by (drule doRequest_sent) (simp add: extends_def)

lemma StarRepository_extends: "StarRepository out c n t d s = (r, s') \<Longrightarrow> extends s s'"
  unfolding StarRepository_def
  by (auto simp: Let_def split: if_splits prod.splits option.splits dest: doRequest_extends)

lemma generateRandomColor_sent: "generateRandomColor out s = (col, s') \<Longrightarrow> sent s' = sent s"
  by (auto simp: generateRandomColor_def split: prod.splits)

lemma generateRandomColor_extends: "generateRandomColor out s = (col, s') \<Longrightarrow> extends s s'"
  by (drule generateRandomColor_sent) (simp add: extends_def)

lemma addLabelToIssue_extends: "extends s (addLabelToIssue out c repo t n l s)"
  unfolding addLabelToIssue_def Let_def
  by (auto split: prod.splits simp del: append.simps
      dest!: generateRandomColor_extends doRequest_extends intro: extends_trans)

lemma addLabelToIssue_loop_extends: "extends s (addLabelToIssue_loop out c repo t n ls s)"
proof (induction ls arbitrary: s)
  case Nil
  then show ?case by simp
next
  case (Cons l ls)
  show ?case
    using addLabelToIssue_extends[of s out c repo t n "label_GetName l"]
      Cons.IH[of "addLabelToIssue out c repo t n (label_GetName l) s"]
    by (auto intro: extends_trans)
qed

lemma createGiteaIssue_extends: "createGiteaIssue out c i repo t s = (r, s') \<Longrightarrow> extends s s'"
  unfolding createGiteaIssue_def Let_def
  by (auto split: prod.splits option.splits if_splits sum.splits
      dest!: doRequest_extends intro: extends_trans[OF _ addLabelToIssue_loop_extends])

lemma MirrorIssues_loop_extends: "extends s (MirrorIssues_loop out c repo t is s)"
proof (induction "is" arbitrary: s)
  case Nil
  then show ?case by simp
next
  case (Cons i "is")
  obtain r s' where c: "createGiteaIssue out c i repo t s = (r, s')"
    by (cases "createGiteaIssue out c i repo t s")
  from createGiteaIssue_extends[OF c] have e: "extends s s'" .
  show ?case
  proof (cases r)
    case None
    with c e Cons.IH[of s'] show ?thesis by (auto intro: extends_trans)
  next
    case (Some err)
    with c e Cons.IH[of "Printf (''Error creating issue '' @ [CHR 0x27] @ ''%s'' @ [CHR 0x27] @ '': %v'')
               [S (issue_GetTitle i), V err] s'"] show ?thesis
      by (auto intro: extends_trans simp del: append.simps)
  qed
qed

lemma MirrorIssues_loop_extends': "extends s s0 \<Longrightarrow> extends s (MirrorIssues_loop out c repo t is s0)"
  using MirrorIssues_loop_extends[of s0 out c repo t "is"] by (blast intro: extends_trans)

lemma MirrorIssues_extends:
  "MirrorIssues fuel out c gh repo t tok d s = Some (r, s') \<Longrightarrow> extends s s'"
  unfolding MirrorIssues_def
  by (auto split: if_splits option.splits sum.splits simp del: append.simps
      intro!: MirrorIssues_loop_extends')

lemma MirrorRepository_sent:
  "MirrorRepository out c repo t tok s = (r, s') \<Longrightarrow> sent s' = sent s @ [migrateRequest c repo t tok]"
  unfolding MirrorRepository_def Let_def migrateRequest_def
  by (auto split: prod.splits option.splits if_splits dest!: doRequest_request)

lemma mirrorRepository_create_first:
  assumes "mirrorRepository_create fuel out c gh repo cfg t s = Some (r, s')"
  shows "\<exists>rest. sent s' = sent s @ migrateRequest c repo t (GitHub_Token (GitHub cfg)) # rest"
proof -
  let ?s0 = "Printf ''Mirroring repository to %s %s: %s%s''
                 [S (Target_Type t), S (Target_Name t), S (Name repo),
                  S (if Starred repo then '' (will be starred)'' else [])] s"
  obtain e s1 where m: "MirrorRepository out c repo t (GitHub_Token (GitHub cfg)) ?s0 = (e, s1)"
    by (cases "MirrorRepository out c repo t (GitHub_Token (GitHub cfg)) ?s0")
  from MirrorRepository_sent[OF m]
  have s1: "sent s1 = sent s @ [migrateRequest c repo t (GitHub_Token (GitHub cfg))]" by simp
  have "extends s1 s'"
    using assms unfolding mirrorRepository_create_def Let_def m
    by (auto split: option.splits if_splits prod.splits
        dest!: StarRepository_extends MirrorIssues_extends intro: extends_trans)
  then obtain new where "sent s' = sent s1 @ new" by (auto simp: extends_iff)
  with s1 show ?thesis by simp
qed


lemma IsRepositoryMirrored_result:
  "fst (IsRepositoryMirrored out c repoName target s) =
     ((case fst (roundTrip out (world s)
                   (request c ''GET'' (''/api/v1/repos/'' @ Target_Name target @ ''/'' @ repoName) NoBody)) of
         Refused err \<Rightarrow> False
       | Truncated status err \<Rightarrow> status = 200
       | Replied respBody status \<Rightarrow> status = 200), None)"
  by (simp add: IsRepositoryMirrored_def doRequest_def request_def Let_def StatusOK_def
      split: prod.splits outcome.splits)

lemma mirrorRepository_create_nil_after_mirror:
  assumes "MirrorRepository out c repo t (GitHub_Token (GitHub cfg))
             (Printf ''Mirroring repository to %s %s: %s%s''
                 [S (Target_Type t), S (Target_Name t), S (Name repo),
                  S (if Starred repo then '' (will be starred)'' else [])] s) = (None, s1)"
    and "mirrorRepository_create fuel out c gh repo cfg t s = Some (r, s')"
  shows "r = None"
  using assms(2) unfolding mirrorRepository_create_def Let_def assms(1)
  by (auto split: option.splits if_splits prod.splits)

lemma MirrorIssues_returns:
  "fetchGitHubIssues fuel gh repo \<noteq> None \<Longrightarrow> MirrorIssues fuel out c gh repo t tok d x \<noteq> None"
  by (auto simp: MirrorIssues_def split: sum.splits)

lemma mirrorRepository_create_returns:
  assumes "GitHub_MirrorIssues (GitHub cfg) \<longrightarrow> fetchGitHubIssues fuel gh repo \<noteq> None"
  shows "mirrorRepository_create fuel out c gh repo cfg t s \<noteq> None"
proof -
  let ?s0 = "Printf ''Mirroring repository to %s %s: %s%s''
                 [S (Target_Type t), S (Target_Name t), S (Name repo),
                  S (if Starred repo then '' (will be starred)'' else [])] s"
  obtain e s1 where m: "MirrorRepository out c repo t (GitHub_Token (GitHub cfg)) ?s0 = (e, s1)"
    by (cases "MirrorRepository out c repo t (GitHub_Token (GitHub cfg)) ?s0")
  show ?thesis
  proof (cases e)
    case (Some err)
    with m show ?thesis by (simp add: mirrorRepository_create_def)
  next
    case None
    show ?thesis
    proof (cases "GitHub_MirrorIssues (GitHub cfg)")
      case False
      with m None show ?thesis by (simp add: mirrorRepository_create_def Let_def)
    next
      case True
      let ?s2 = "(if Starred repo
                       then case StarRepository out c (Name repo) t (DryRun cfg) s1 of
                              (Some err, s') \<Rightarrow>
                                Printf ''Warning: Failed to star repository %s: %v''
                                  [S (Name repo), V err] s'
                            | (None, s') \<Rightarrow> s'
                       else s1)"
      from True assms have "MirrorIssues fuel out c gh repo t (GitHub_Token (GitHub cfg)) (DryRun cfg) ?s2 \<noteq> None"
        by (simp add: MirrorIssues_returns)
      then obtain r s3 where mi:
        "MirrorIssues fuel out c gh repo t (GitHub_Token (GitHub cfg)) (DryRun cfg) ?s2 = Some (r, s3)"
        by auto
      have "mirrorRepository_create fuel out c gh repo cfg t s =
              (let shouldMirrorIssues = (GitHub_MirrorIssues (GitHub cfg)
                     \<and> \<not> (Starred repo \<and> GitHub_SkipStarredIssues (GitHub cfg)))
               in if shouldMirrorIssues \<and> \<not> DryRun cfg
                then case MirrorIssues fuel out c gh repo t
                            (GitHub_Token (GitHub cfg)) (DryRun cfg) ?s2 of
                       None \<Rightarrow> None
                     | Some (Some err, s3) \<Rightarrow>
                         Some (None, Printf ''Warning: Failed to mirror issues for %s: %v''
                                       [S (Name repo), V err] s3)
                     | Some (None, s3) \<Rightarrow> Some (None, s3)
                else if Starred repo \<and> GitHub_SkipStarredIssues (GitHub cfg)
                then Some (None, Printf ''Skipping issues for starred repository: %s'' [S (Name repo)] ?s2)
                else Some (None, ?s2))"
        unfolding mirrorRepository_create_def Let_def m None by simp
      then show ?thesis
        unfolding mi Let_def by (cases r) simp_all
    qed
  qed
qed

subsection \<open>Auxiliary facts: the collector\<close>

lemma GetRepositories_standard_dedup:
  "GetRepositories_standard fuel client opts = Some (Inr repos, lg) \<Longrightarrow>
     \<exists>combined. repos = filterDuplicates combined"
  unfolding GetRepositories_standard_def
  by (auto split: option.splits sum.splits prod.splits if_splits)

lemma GetRepositories_distinct:
  assumes "GetRepositories fuel client opts = Some (Inr repos, lg)"
  shows "distinct (map URL repos)"
proof (cases "opt_SingleRepo opts \<noteq> []")
  case True
  with assms show ?thesis
    by (auto simp: GetRepositories_def split: sum.splits if_splits)
next
  case False
  with assms obtain rs where rs: "GetRepositories_standard fuel client opts = Some (Inr rs, lg)"
    and repos: "repos = (if opt_SkipForks opts then withoutForks rs else rs)"
    by (auto simp: GetRepositories_def split: option.splits sum.splits if_splits prod.splits)
  from GetRepositories_standard_dedup[OF rs] have "distinct (map URL rs)"
    by (auto simp: filterDuplicates_distinct)
  with repos show ?thesis
    by (simp add: withoutForks_filter distinct_map_filter)
qed








subsection \<open>The filter stage\<close>

text \<open>
  Claim C3. For every repository list and every pair of include and exclude pattern lists,
  \<open>filterRepositories\<close> returns (in order) exactly the repositories whose name matches at least
  one include pattern and no exclude pattern, where a pattern matches a name when the matcher
  answers \<open>matched = true\<close> with \<open>err = nil\<close>. A name matching both an include and an exclude
  pattern is therefore dropped, and a pattern on which the matcher reports an error (a
  malformed pattern) counts as not matching; the function has no error result at all.
\<close>

theorem filterRepositories_retains_iff:
  "filterRepositories Match repos incl excl =
     filter (\<lambda>repo. (\<exists>pattern\<in>set incl. Match pattern (Name repo) = (True, None))
                   \<and> \<not> (\<exists>pattern\<in>set excl. Match pattern (Name repo) = (True, None))) repos"
  by (simp add: filterRepositories_filter patternMatch_iff)

theorem filterRepositories_retains_iff_witness:
  "filterRepositories example_Match
     [example_repo ''lib-a'' ''u1'', example_repo ''app-x'' ''u2'', example_repo ''lib-b'' ''u3'']
     [''[bad'', ''lib-*''] [''lib-b'', ''[bad'']
   = [example_repo ''lib-a'' ''u1'']"
  by (subst filterRepositories_retains_iff) (simp add: example_Match_def example_repo_def)

text \<open>
  Claim C8. Filtering the output of the filter stage again with the same patterns returns it
  unchanged.
\<close>

theorem filterRepositories_idempotent:
  "filterRepositories Match (filterRepositories Match repos incl excl) incl excl
     = filterRepositories Match repos incl excl"
  by (simp add: filterRepositories_filter)

subsection \<open>Deduplication\<close>

text \<open>
  Claim C2. \<open>filterDuplicates\<close> returns a list without two records of the same clone URL, and
  for every URL the first record of the output with that URL is the first record of the input
  with it (in particular every URL of the input is kept once). Outside single-repository mode
  what \<open>GetRepositories\<close> returns is the deduplicated combination of the enabled modes,
  possibly with the forks removed, so no two returned repositories share a clone URL, and
  this still holds after the filter stage.
\<close>

theorem filterDuplicates_first_seen_unique:
  "distinct (map URL (filterDuplicates repositories))
   \<and> find (\<lambda>repo. URL repo = u) (filterDuplicates repositories)
       = find (\<lambda>repo. URL repo = u) repositories
   \<and> (opt_SingleRepo opts = [] \<longrightarrow>
        GetRepositories fuel client opts = Some (Inr repos, lg) \<longrightarrow>
          (\<exists>combined. repos = (if opt_SkipForks opts then withoutForks (filterDuplicates combined)
                               else filterDuplicates combined))
          \<and> distinct (map URL repos)
          \<and> distinct (map URL (filterRepositories Match repos incl excl)))"
proof (intro conjI impI)
  assume a: "opt_SingleRepo opts = []" "GetRepositories fuel client opts = Some (Inr repos, lg)"
  then obtain rs where rs: "GetRepositories_standard fuel client opts = Some (Inr rs, lg)"
    and repos: "repos = (if opt_SkipForks opts then withoutForks rs else rs)"
    by (auto simp: GetRepositories_def split: option.splits sum.splits if_splits prod.splits)
  from GetRepositories_standard_dedup[OF rs] repos
  show "\<exists>combined. repos = (if opt_SkipForks opts then withoutForks (filterDuplicates combined)
                               else filterDuplicates combined)"
    by auto
  from GetRepositories_distinct[OF a(2)] show d: "distinct (map URL repos)" .
  then show "distinct (map URL (filterRepositories Match repos incl excl))"
    by (simp add: filterRepositories_filter distinct_map_filter)
qed (simp_all add: filterDuplicates_distinct filterDuplicates_find)


theorem filterDuplicates_first_seen_unique_witness:
  "opt_SingleRepo example_opts = []
   \<and> GetRepositories 2 example_gh example_opts
       = Some (Inr [toRepository (example_gh_repo ''acme'' ''one'') False,
                    toRepository (example_gh_repo ''beta'' ''two'') False],
               snd (the (GetRepositories 2 example_gh example_opts)))
   \<and> distinct (map URL [toRepository (example_gh_repo ''acme'' ''one'') False,
                         toRepository (example_gh_repo ''beta'' ''two'') False])"
proof -
  have h: "GetRepositories 2 example_gh example_opts
       = Some (Inr [toRepository (example_gh_repo ''acme'' ''one'') False,
                    toRepository (example_gh_repo ''beta'' ''two'') False],
               snd (the (GetRepositories 2 example_gh example_opts)))"
    by (simp add: GetRepositories_def GetRepositories_standard_def example_opts_def
        example_gh_def fetchPublicRepositories_def fetchOrganizationRepositories_def
        fetchOrganizationRepositories_org_def filterDuplicates_def numeral_2_eq_2
        toRepository_def example_gh_repo_def)
  have e: "opt_SingleRepo example_opts = []"
    by (simp add: example_opts_def)
  from filterDuplicates_first_seen_unique[of "[]" "[]" example_opts 2 example_gh _ _ example_Match "[]" "[]"]
    e h
  show ?thesis by blast
qed

subsection \<open>Target resolution\<close>

text \<open>
  Claim C4. For a starred repository, when a starred-repositories organization is configured,
  target resolution looks that organization up; if the lookup succeeds the target is that
  organization (by name, of type organization), and if it fails the target is the default
  target, computed after the warning was logged: resolution returns a target in both cases.
  The result does not depend on the organization-structure setting, on the source
  organization of the repository or on the pre-resolved organization targets.
\<close>

theorem starred_target_precedence:
  assumes "Starred repo" and "Gitea_StarredReposOrg (Gitea cfg) \<noteq> []"
  shows "(case GetOrganization out giteaClient (Gitea_StarredReposOrg (Gitea cfg)) s of
            (Inr starredOrg, s') \<Rightarrow>
              fst (mirrorRepository_target out giteaClient repo cfg giteaUser orgTargets s) = starredOrg
              \<and> Target_Name starredOrg = Gitea_StarredReposOrg (Gitea cfg)
              \<and> Target_Type starredOrg = ''organization''
          | (Inl err, s') \<Rightarrow>
              mirrorRepository_target out giteaClient repo cfg giteaUser orgTargets s
                = getDefaultTarget out giteaClient cfg giteaUser
                    (Printf (''Could not find organization '' @ [CHR 0x22] @ ''%s'' @ [CHR 0x22]
                             @ '' for starred repositories, using default target'')
                       [S (Gitea_StarredReposOrg (Gitea cfg))] s'))
         \<and> mirrorRepository_target out giteaClient
              (repo\<lparr>Organization := organization\<rparr>)
              (cfg\<lparr>GitHub := (GitHub cfg)\<lparr>GitHub_PreserveOrgStructure := preserve\<rparr>\<rparr>)
              giteaUser orgTargets' s
           = mirrorRepository_target out giteaClient repo cfg giteaUser orgTargets s"
proof -
  have "Target_Name t = n \<and> Target_Type t = ''organization''"
    if "GetOrganization out giteaClient n s = (Inr t, s')" for t n s'
    using that unfolding GetOrganization_def
    by (auto split: prod.splits option.splits if_splits sum.splits)
  moreover have "getDefaultTarget out giteaClient
              (cfg\<lparr>GitHub := (GitHub cfg)\<lparr>GitHub_PreserveOrgStructure := preserve\<rparr>\<rparr>) giteaUser x
             = getDefaultTarget out giteaClient cfg giteaUser x" for x
    by (simp add: getDefaultTarget_def split: prod.splits sum.splits)
  ultimately show ?thesis
    using assms by (auto simp: mirrorRepository_target_def split: prod.splits sum.splits)
qed


theorem starred_target_precedence_witness:
  "Starred ((example_repo ''lib-a'' ''u1'')\<lparr>Starred := True\<rparr>)
   \<and> Gitea_StarredReposOrg (Gitea (example_cfg False [])) \<noteq> []
   \<and> fst (mirrorRepository_target scripted example_client
            ((example_repo ''lib-a'' ''u1'')\<lparr>Starred := True\<rparr>) (example_cfg False [])
            example_user Map.empty (start [Replied ''{}'' 200]))
       = \<lparr> Target_ID = 7, Target_Name = ''github'', Target_Type = ''organization'' \<rparr>"
proof -
  have a: "Starred ((example_repo ''lib-a'' ''u1'')\<lparr>Starred := True\<rparr>)"
    by simp
  have b: "Gitea_StarredReposOrg (Gitea (example_cfg False [])) \<noteq> []"
    by (simp add: example_cfg_def)
  have c: "GetOrganization scripted example_client (Gitea_StarredReposOrg (Gitea (example_cfg False [])))
             (start [Replied ''{}'' 200])
           = (Inr \<lparr> Target_ID = 7, Target_Name = ''github'', Target_Type = ''organization'' \<rparr>,
              snd (GetOrganization scripted example_client ''github'' (start [Replied ''{}'' 200])))"
    by (simp add: GetOrganization_def doRequest_def scripted_def start_def example_cfg_def
        StatusOK_def)
  from starred_target_precedence[OF a b, where out = scripted and giteaClient = example_client
      and s = "start [Replied ''{}'' 200]" and giteaUser = example_user
      and orgTargets = Map.empty and organization = "[]" and preserve = False
      and orgTargets' = Map.empty]
  show ?thesis using a b by (simp add: c)
qed

subsection \<open>The starred organization of a loaded configuration\<close>

text \<open>
  Claim C10. Whenever \<open>Load\<close> succeeds, the starred-repositories organization of the
  configuration is not empty: it is \<open>github\<close> when \<open>GITEA_STARRED_ORGANIZATION\<close> is unset or
  empty and the value of the variable otherwise. Hence for every starred repository target
  resolution takes the starred-organization branch (lookup of that organization, default
  target on failure) and never the later ones.
\<close>

theorem Load_StarredReposOrg_nonempty:
  assumes "Load os = Inr cfg"
  shows "Gitea_StarredReposOrg (Gitea cfg) \<noteq> []
       \<and> Gitea_StarredReposOrg (Gitea cfg) =
           (if Getenv os ''GITEA_STARRED_ORGANIZATION'' = [] then ''github''
            else Getenv os ''GITEA_STARRED_ORGANIZATION'')
       \<and> (Starred repo \<longrightarrow>
            mirrorRepository_target out giteaClient repo cfg giteaUser orgTargets s =
              (case GetOrganization out giteaClient (Gitea_StarredReposOrg (Gitea cfg)) s of
                 (Inr starredOrg, s') \<Rightarrow>
                   (starredOrg,
                    Printf (''Using organization '' @ [CHR 0x22] @ ''%s'' @ [CHR 0x22]
                            @ '' for starred repository: %s'')
                      [S (Gitea_StarredReposOrg (Gitea cfg)), S (Name repo)] s')
               | (Inl err, s') \<Rightarrow>
                   getDefaultTarget out giteaClient cfg giteaUser
                     (Printf (''Could not find organization '' @ [CHR 0x22] @ ''%s'' @ [CHR 0x22]
                              @ '' for starred repositories, using default target'')
                        [S (Gitea_StarredReposOrg (Gitea cfg))] s')))"
proof -
  have 1: "Gitea_StarredReposOrg (Gitea cfg) =
           (if Getenv os ''GITEA_STARRED_ORGANIZATION'' = [] then ''github''
            else Getenv os ''GITEA_STARRED_ORGANIZATION'')"
    using assms unfolding Load_def Let_def readEnv_def
    by (auto split: sum.splits if_splits)
  then have 2: "Gitea_StarredReposOrg (Gitea cfg) \<noteq> []"
    by (simp split: if_splits)
  show ?thesis using 1 2 by (simp add: mirrorRepository_target_def)
qed


theorem Load_StarredReposOrg_nonempty_witness:
  "Load example_os = Inr (example_cfg False [])
   \<and> Gitea_StarredReposOrg (Gitea (example_cfg False [])) = ''github''"
proof -
  have h: "Load example_os = Inr (example_cfg False [])"
    by (simp add: Load_def mustReadEnv_def readEnv_def readBoolean_def readInt_def
        splitAndTrim_def Split_def example_os_def example_cfg_def)
  from Load_StarredReposOrg_nonempty[OF h, where repo = "example_repo ''lib-a'' ''u1''"
      and out = scripted and giteaClient = example_client and giteaUser = example_user
      and orgTargets = Map.empty and s = "start []"] h
  show ?thesis
    by (simp add: example_os_def)
qed

subsection \<open>The mirror orchestrator\<close>

text \<open>
  Claim C1. With dry-run enabled \<open>mirrorRepository\<close> always returns, with a nil error, and
  every request it issues is a \<open>GET\<close> without a body (the organization lookups of target
  resolution and the existence check): no mirror is created, nothing is starred, no issue is
  created. When the existence check finds no mirror, the only thing done after the check is
  one log line, which says that the repository would be mirrored and starred for a starred
  repository and that it would be mirrored otherwise.
\<close>

theorem mirrorRepository_dryRun_purity:
  assumes "DryRun cfg"
  shows "\<exists>s'. mirrorRepository fuel out giteaClient ghClient repo cfg giteaUser orgTargets s
                = Some (None, s')
            \<and> onlyReads s s'
            \<and> (\<forall>giteaTarget s1 s2.
                 mirrorRepository_target out giteaClient repo cfg giteaUser orgTargets s
                   = (giteaTarget, s1) \<longrightarrow>
                 IsRepositoryMirrored out giteaClient (Name repo) giteaTarget s1
                   = ((False, None), s2) \<longrightarrow>
                 s' = Printf (if Starred repo
                              then ''DRY RUN: Would mirror and star repository to %s %s: %s (starred)''
                              else ''DRY RUN: Would mirror repository to %s %s: %s'')
                        [S (Target_Type giteaTarget), S (Target_Name giteaTarget), S (Name repo)]
                        s2)"
proof -
  obtain t s1 where t: "mirrorRepository_target out giteaClient repo cfg giteaUser orgTargets s = (t, s1)"
    by (cases "mirrorRepository_target out giteaClient repo cfg giteaUser orgTargets s")
  obtain m e s2 where m: "IsRepositoryMirrored out giteaClient (Name repo) t s1 = ((m, e), s2)"
    by (cases "IsRepositoryMirrored out giteaClient (Name repo) t s1") auto
  from IsRepositoryMirrored_onlyReads[OF m] have e: "e = None" and r2: "onlyReads s1 s2" by auto
  from mirrorRepository_target_onlyReads[OF t] r2 have r: "onlyReads s s2"
    by (rule onlyReads_trans)
  show ?thesis
    using assms r by (simp add: mirrorRepository_def t m e StarRepository_dryRun)
qed

theorem mirrorRepository_dryRun_purity_witness:
  "DryRun (example_cfg True ''gh-token'')
   \<and> (\<exists>s'. mirrorRepository 0 scripted example_client example_gh
               ((example_repo ''lib-a'' ''u1'')\<lparr>Starred := True\<rparr>) (example_cfg True ''gh-token'')
               example_user Map.empty (start [Replied ''{}'' 200, Replied [] 404])
             = Some (None, s')
           \<and> onlyReads (start [Replied ''{}'' 200, Replied [] 404]) s')"
proof -
  have d: "DryRun (example_cfg True ''gh-token'')"
    by (simp add: example_cfg_def)
  from mirrorRepository_dryRun_purity[OF d] d show ?thesis
    by blast
qed

text \<open>
  Claim C9, as stated, fails: when the response to the existence check arrives with status
  200 and reading its body then fails (a failure of the transport), \<open>doRequest\<close> returns
  the status 200 with the error, \<open>IsRepositoryMirrored\<close> drops the error and reports the
  repository as mirrored.
\<close>

theorem IsRepositoryMirrored_truncated_counterexample:
  "fst (IsRepositoryMirrored scripted example_client ''lib-a'' example_user
          (start [Truncated 200 (External ''unexpected EOF'')])) = (True, None)"
  by (simp add: IsRepositoryMirrored_def doRequest_def scripted_def start_def StatusOK_def)


text \<open>
  Claim C9, amended. \<open>IsRepositoryMirrored\<close> never returns an error, and it reports the
  repository as mirrored exactly when a response with status 200 was received, whether or not
  the body of that response could be read. When no response is received (status 0) or the
  status is not 200, the repository is reported as not mirrored with a nil error, and the
  orchestrator, outside dry-run, goes on to the mirror-create step.
\<close>

theorem IsRepositoryMirrored_status_only:
  "fst (IsRepositoryMirrored out c repoName target s) =
     ((case fst (roundTrip out (world s)
                   (request c ''GET'' (''/api/v1/repos/'' @ Target_Name target @ ''/'' @ repoName) NoBody)) of
         Refused err \<Rightarrow> False
       | Truncated status err \<Rightarrow> status = 200
       | Replied respBody status \<Rightarrow> status = 200), None)
   \<and> (\<not> DryRun cfg \<longrightarrow>
        mirrorRepository_target out giteaClient repo cfg giteaUser orgTargets s0 = (giteaTarget, s1) \<longrightarrow>
        \<not> fst (fst (IsRepositoryMirrored out giteaClient (Name repo) giteaTarget s1)) \<longrightarrow>
        mirrorRepository fuel out giteaClient ghClient repo cfg giteaUser orgTargets s0
          = mirrorRepository_create fuel out giteaClient ghClient repo cfg giteaTarget
              (snd (IsRepositoryMirrored out giteaClient (Name repo) giteaTarget s1)))"
proof (intro conjI impI)
  assume a: "\<not> DryRun cfg"
    "mirrorRepository_target out giteaClient repo cfg giteaUser orgTargets s0 = (giteaTarget, s1)"
    "\<not> fst (fst (IsRepositoryMirrored out giteaClient (Name repo) giteaTarget s1))"
  obtain m e s2 where m: "IsRepositoryMirrored out giteaClient (Name repo) giteaTarget s1 = ((m, e), s2)"
    by (cases "IsRepositoryMirrored out giteaClient (Name repo) giteaTarget s1") auto
  from IsRepositoryMirrored_onlyReads[OF m] have "e = None" by simp
  with a m show "mirrorRepository fuel out giteaClient ghClient repo cfg giteaUser orgTargets s0
          = mirrorRepository_create fuel out giteaClient ghClient repo cfg giteaTarget
              (snd (IsRepositoryMirrored out giteaClient (Name repo) giteaTarget s1))"
    by (simp add: mirrorRepository_def)
qed (rule IsRepositoryMirrored_result)


theorem IsRepositoryMirrored_status_only_witness:
  "\<not> DryRun (example_cfg False [])
   \<and> mirrorRepository_target scripted example_client (example_repo ''lib-a'' ''u1'')
        (example_cfg False []) example_user Map.empty (start []) = (example_user, start [])
   \<and> \<not> fst (fst (IsRepositoryMirrored scripted example_client
                      (Name (example_repo ''lib-a'' ''u1'')) example_user (start [])))
   \<and> mirrorRepository 0 scripted example_client example_gh (example_repo ''lib-a'' ''u1'')
        (example_cfg False []) example_user Map.empty (start [])
      = mirrorRepository_create 0 scripted example_client example_gh (example_repo ''lib-a'' ''u1'')
          (example_cfg False []) example_user
          (snd (IsRepositoryMirrored scripted example_client
                  (Name (example_repo ''lib-a'' ''u1'')) example_user (start [])))"
proof -
  have a: "\<not> DryRun (example_cfg False [])"
    by (simp add: example_cfg_def)
  have b: "mirrorRepository_target scripted example_client (example_repo ''lib-a'' ''u1'')
        (example_cfg False []) example_user Map.empty (start []) = (example_user, start [])"
    by (simp add: mirrorRepository_target_def getDefaultTarget_def example_cfg_def example_repo_def)
  have c: "\<not> fst (fst (IsRepositoryMirrored scripted example_client
                      (Name (example_repo ''lib-a'' ''u1'')) example_user (start [])))"
    by (simp add: IsRepositoryMirrored_def doRequest_def scripted_def start_def StatusOK_def)
  from IsRepositoryMirrored_status_only[where out = scripted and giteaClient = example_client and cfg = "example_cfg False []"
      and repo = "example_repo ''lib-a'' ''u1''" and giteaUser = example_user
      and orgTargets = Map.empty and ?s0.0 = "start []" and giteaTarget = example_user
      and ?s1.0 = "start []" and fuel = 0 and ghClient = example_gh] a b c
  show ?thesis by blast
qed


text \<open>
  Claim C6, as stated, fails: for a public repository and a configuration in which no
  collection mode requires the source credential, but which holds one, the mirror-create
  request carries that credential.
\<close>

theorem mirror_create_token_counterexample:
  "\<not> Private (example_repo ''lib-a'' ''https://github.com/octocat/lib-a.git'')
   \<and> \<not> credentialRequired (example_cfg False ''gh-token'')
   \<and> map req_body (sent (snd (the (mirrorRepository 0 scripted example_client example_gh
          (example_repo ''lib-a'' ''https://github.com/octocat/lib-a.git'')
          (example_cfg False ''gh-token'') example_user Map.empty
          (start [Replied [] 404, Replied [] 201])))))
     = [NoBody,
        MigrateBody \<lparr> AuthToken = ''gh-token'',
                      CloneAddr = ''https://github.com/octocat/lib-a.git'', Mirror = True,
                      RepoName = ''lib-a'', UID = 1, Private_field = False \<rparr>]"
  by (simp add: mirrorRepository_def mirrorRepository_target_def getDefaultTarget_def
      mirrorRepository_create_def IsRepositoryMirrored_def MirrorRepository_def doRequest_def
      Printf_def scripted_def start_def example_cfg_def example_repo_def example_user_def
      example_client_def credentialRequired_def StatusOK_def StatusCreated_def)


text \<open>
  Claim C6, amended. For every absent repository outside dry-run the orchestrator runs the
  mirror-create step, which begins by sending the mirror-create request; the \<open>AuthToken\<close>
  field of that request is the configured source credential \<open>cfg.GitHub.Token\<close>, whether
  the repository is private or public and whether or not a collection mode requires the
  credential (the field is empty only when no credential is configured). Whenever the
  orchestrator returns, that request is the first one after the existence check, and it
  does return whenever issue replication is off or the issue listing ends.
\<close>

theorem mirror_create_forwards_configured_token:
  assumes "\<not> DryRun cfg"
    and "mirrorRepository_target out giteaClient repo cfg giteaUser orgTargets s = (giteaTarget, s1)"
    and "IsRepositoryMirrored out giteaClient (Name repo) giteaTarget s1 = ((False, err), s2)"
  shows "mirrorRepository fuel out giteaClient ghClient repo cfg giteaUser orgTargets s
           = mirrorRepository_create fuel out giteaClient ghClient repo cfg giteaTarget s2
       \<and> sent (snd (MirrorRepository out giteaClient repo giteaTarget (GitHub_Token (GitHub cfg))
                      (Printf ''Mirroring repository to %s %s: %s%s''
                         [S (Target_Type giteaTarget), S (Target_Name giteaTarget), S (Name repo),
                          S (if Starred repo then '' (will be starred)'' else [])] s2)))
           = sent s2 @ [migrateRequest giteaClient repo giteaTarget (GitHub_Token (GitHub cfg))]
       \<and> (\<forall>r s'. mirrorRepository fuel out giteaClient ghClient repo cfg giteaUser orgTargets s
                     = Some (r, s') \<longrightarrow>
              (\<exists>rest. sent s' = sent s2
                 @ migrateRequest giteaClient repo giteaTarget (GitHub_Token (GitHub cfg)) # rest))
       \<and> ((GitHub_MirrorIssues (GitHub cfg) \<longrightarrow> fetchGitHubIssues fuel ghClient repo \<noteq> None) \<longrightarrow>
              (\<exists>r s' rest.
                 mirrorRepository fuel out giteaClient ghClient repo cfg giteaUser orgTargets s
                   = Some (r, s')
                 \<and> sent s' = sent s2
                     @ migrateRequest giteaClient repo giteaTarget (GitHub_Token (GitHub cfg)) # rest))"
proof -
  from IsRepositoryMirrored_onlyReads[OF assms(3)] have "err = None" by simp
  with assms have eq: "mirrorRepository fuel out giteaClient ghClient repo cfg giteaUser orgTargets s
      = mirrorRepository_create fuel out giteaClient ghClient repo cfg giteaTarget s2"
    by (simp add: mirrorRepository_def)
  have snt: "sent (snd (MirrorRepository out giteaClient repo giteaTarget (GitHub_Token (GitHub cfg)) x))
           = sent x @ [migrateRequest giteaClient repo giteaTarget (GitHub_Token (GitHub cfg))]" for x
    using MirrorRepository_sent[of out giteaClient repo giteaTarget "GitHub_Token (GitHub cfg)" x]
    by (cases "MirrorRepository out giteaClient repo giteaTarget (GitHub_Token (GitHub cfg)) x") simp
  have first: "\<exists>rest. sent s' = sent s2
                 @ migrateRequest giteaClient repo giteaTarget (GitHub_Token (GitHub cfg)) # rest"
    if "mirrorRepository fuel out giteaClient ghClient repo cfg giteaUser orgTargets s = Some (r, s')"
    for r s'
    using that mirrorRepository_create_first[of fuel out giteaClient ghClient repo cfg giteaTarget s2 r s']
    by (simp add: eq)
  have total: "\<exists>r s' rest.
                 mirrorRepository fuel out giteaClient ghClient repo cfg giteaUser orgTargets s
                   = Some (r, s')
                 \<and> sent s' = sent s2
                     @ migrateRequest giteaClient repo giteaTarget (GitHub_Token (GitHub cfg)) # rest"
    if "GitHub_MirrorIssues (GitHub cfg) \<longrightarrow> fetchGitHubIssues fuel ghClient repo \<noteq> None"
  proof -
    from mirrorRepository_create_returns[OF that, of out giteaClient giteaTarget s2]
    obtain r s' where rs: "mirrorRepository fuel out giteaClient ghClient repo cfg giteaUser orgTargets s
                   = Some (r, s')" by (auto simp: eq)
    from first[OF rs] obtain rest where "sent s' = sent s2
                 @ migrateRequest giteaClient repo giteaTarget (GitHub_Token (GitHub cfg)) # rest" ..
    with rs show ?thesis by blast
  qed
  show ?thesis
  proof (intro conjI allI impI)
    show "mirrorRepository fuel out giteaClient ghClient repo cfg giteaUser orgTargets s
           = mirrorRepository_create fuel out giteaClient ghClient repo cfg giteaTarget s2"
      by (rule eq)
  qed (simp_all only: snt Printf_sent first total)
qed

theorem mirror_create_forwards_configured_token_witness:
  "\<not> DryRun example_cfg_issues
   \<and> GitHub_MirrorIssues (GitHub example_cfg_issues)
   \<and> fetchGitHubIssues 1 example_gh (example_repo ''lib-a'' ''u1'') = Some (Inr [])
   \<and> (\<exists>r s' rest.
         mirrorRepository 1 scripted example_client example_gh (example_repo ''lib-a'' ''u1'')
           example_cfg_issues example_user Map.empty (start [Replied [] 404, Replied [] 201])
         = Some (r, s')
       \<and> sent s' = sent (snd (IsRepositoryMirrored scripted example_client ''lib-a'' example_user
                               (start [Replied [] 404, Replied [] 201])))
                   @ migrateRequest example_client (example_repo ''lib-a'' ''u1'') example_user
                       ''gh-token'' # rest)"
proof -
  let ?s = "start [Replied [] 404, Replied [] 201]"
  let ?repo = "example_repo ''lib-a'' ''u1''"
  have a: "\<not> DryRun example_cfg_issues"
    by (simp add: example_cfg_issues_def example_cfg_def)
  have i: "GitHub_MirrorIssues (GitHub example_cfg_issues)"
    by (simp add: example_cfg_issues_def)
  have t: "GitHub_Token (GitHub example_cfg_issues) = ''gh-token''"
    by (simp add: example_cfg_issues_def example_cfg_def)
  have b: "mirrorRepository_target scripted example_client ?repo example_cfg_issues example_user
             Map.empty ?s = (example_user, ?s)"
    by (simp add: mirrorRepository_target_def getDefaultTarget_def example_cfg_issues_def
        example_cfg_def example_repo_def)
  have c: "IsRepositoryMirrored scripted example_client (Name ?repo) example_user ?s
             = ((False, None), snd (IsRepositoryMirrored scripted example_client ''lib-a'' example_user ?s))"
    by (simp add: IsRepositoryMirrored_def doRequest_def scripted_def start_def StatusOK_def
        example_repo_def)
  have f: "fetchGitHubIssues 1 example_gh ?repo = Some (Inr [])"
    by (simp add: fetchGitHubIssues_def example_gh_def)
  have p: "GitHub_MirrorIssues (GitHub example_cfg_issues) \<longrightarrow>
             fetchGitHubIssues 1 example_gh ?repo \<noteq> None"
    unfolding f by simp
  note T = mirror_create_forwards_configured_token[OF a b c, of 1 example_gh, THEN conjunct2, THEN conjunct2, THEN conjunct2]
  from T[THEN mp, OF p] have "\<exists>r s' rest.
         mirrorRepository 1 scripted example_client example_gh ?repo
           example_cfg_issues example_user Map.empty ?s = Some (r, s')
       \<and> sent s' = sent (snd (IsRepositoryMirrored scripted example_client ''lib-a'' example_user ?s))
                   @ migrateRequest example_client ?repo example_user ''gh-token'' # rest"
    unfolding t .
  with a i f show ?thesis by blast
qed

text \<open>
  Claim C5. After a successful mirror-create step a failure of the star action or of issue
  replication is only logged as a warning (\<open>mirrorRepository_create_nil_after_mirror\<close>
  above: the result is nil). For a starred repository whose mirror already exists, however,
  \<open>mirrorRepository\<close> returns what \<open>StarRepository\<close> returns: with the organization
  \<open>github\<close> found, the existence check answered 200 and the star request answered 500, the
  result of the orchestrator is the star error.
\<close>

theorem already_mirrored_star_failure_returned:
  "map_option fst
     (mirrorRepository 0 scripted example_client example_gh
        ((example_repo ''lib-a'' ''u1'')\<lparr>Starred := True\<rparr>) (example_cfg False ''gh-token'')
        example_user Map.empty (start [Replied ''{}'' 200, Replied [] 200, Replied [] 500]))
   = Some (Some (Errorf ''failed to star repository %s/%s: status %d''
                   [S ''github'', S ''lib-a'', D 500]))"
  by (simp add: mirrorRepository_def mirrorRepository_target_def GetOrganization_def
      IsRepositoryMirrored_def StarRepository_def doRequest_def
      Printf_def scripted_def start_def example_cfg_def example_repo_def example_user_def
      example_client_def StatusOK_def StatusNoContent_def)


subsection \<open>Organization collection\<close>





end
